theory Spec2Isabelle
  imports Complex_Main "HOL-Library.Signed_Division"
begin

section \<open>Persisted tables\<close>

text \<open>
  The program (automate.go) reads and writes its tables through an object-relational
  layer. The table row types are declared in a package that is not part of the sources;
  the rows below carry exactly the columns and struct fields that automate.go names, in
  its queries and in its Go code. Identifiers are Go \<open>uint64\<close> values that are only
  compared, never computed with, and are modelled as natural numbers. Numeric columns of
  the statistics tables are taken as exact real numbers and as never \<open>NULL\<close>;
  \<open>do_not_use\<close> is nullable, as the query's \<open>IS NULL\<close> test says. Instants
  (\<open>time.Time\<close>) are natural numbers, \<open>0\<close> being the zero instant.
\<close>

text \<open>Modelled from the spec: the Device record (struct \<open>Miner\<close>), with the fields
  automate.go reads or assigns. \<open>SendEmail\<close> is a \<open>*bool\<close>: \<open>None\<close> is the nil pointer.\<close>

record Miner =
  Miner_ID :: nat
  Miner_Name :: string
  MinerSoftwareAlgoID :: nat
  SendEmail :: "bool option"
  LastCheckIn :: nat
  OfflineNoticeSent :: bool

text \<open>Modelled from the spec: the Algorithm catalog row.\<close>

record Algorithm =
  Algorithm_ID :: nat
  Algorithm_Name :: string

text \<open>Modelled from the spec: the Software catalog row with its parameter template.\<close>

record MinerSoftware =
  MinerSoftware_ID :: nat
  MinerSoftware_Name :: string
  AlgoParam :: string
  PoolParam :: string
  WalletParam :: string
  PasswordParam :: string
  OtherParams :: string

text \<open>Modelled from the spec: the per-device file path registered for a Software.\<close>

record MinerMinerSoftware =
  MMS_MinerID :: nat
  MMS_MinerSoftwareID :: nat
  FilePath :: string

text \<open>Modelled from the spec: the Combination row (struct \<open>MinerSoftwareAlgos\<close>).\<close>

record MinerSoftwareAlgos =
  MSA_ID :: nat
  MSA_MinerSoftwareID :: nat
  MSA_AlgorithmID :: nat
  MSA_Name :: string
  ExtraParams :: string
  DoNotUse :: "bool option"

text \<open>Modelled from the spec: a Throughput Sample (table \<open>miner_stats\<close>).\<close>

record MinerStats =
  stat_id :: nat
  stat_miner_id :: nat
  stat_miner_software_id :: nat
  stat_algorithm_id :: nat
  work_per_second :: real
  stat_mh_factor :: real

text \<open>Modelled from the spec: a pool (table \<open>pools\<close>), one per algorithm.\<close>

record Pool =
  pool_id :: nat
  pool_algorithm_id :: nat
  pool_mh_factor :: real

text \<open>Modelled from the spec: a Pool Market Snapshot (table \<open>pool_stats\<close>).\<close>

record PoolStats =
  pool_stat_id :: nat
  pool_stat_pool_id :: nat
  coin_price_id :: nat
  profit_estimate :: real
  profit_actual24_hours :: real

text \<open>Modelled from the spec: a price snapshot (table \<open>coin_prices\<close>).\<close>

record CoinPrice =
  coin_id :: nat
  price :: real

record database =
  miners :: "Miner list"
  algorithms :: "Algorithm list"
  miner_softwares :: "MinerSoftware list"
  miner_miner_softwares :: "MinerMinerSoftware list"
  miner_software_algos :: "MinerSoftwareAlgos list"
  miner_stats :: "MinerStats list"
  pools :: "Pool list"
  pool_stats :: "PoolStats list"
  coin_prices :: "CoinPrice list"

text \<open>The Go zero values \<open>Miner{}\<close>, \<open>MinerSoftware{}\<close>, \<open>Algorithm{}\<close>,
  \<open>MinerMinerSoftware{}\<close> and \<open>MinerSoftwareAlgos{}\<close>.\<close>

definition zero_Miner :: Miner where
  "zero_Miner = \<lparr>Miner_ID = 0, Miner_Name = [], MinerSoftwareAlgoID = 0, SendEmail = None,
     LastCheckIn = 0, OfflineNoticeSent = False\<rparr>"

definition zero_Algorithm :: Algorithm where
  "zero_Algorithm = \<lparr>Algorithm_ID = 0, Algorithm_Name = []\<rparr>"

definition zero_MinerSoftware :: MinerSoftware where
  "zero_MinerSoftware = \<lparr>MinerSoftware_ID = 0, MinerSoftware_Name = [], AlgoParam = [],
     PoolParam = [], WalletParam = [], PasswordParam = [], OtherParams = []\<rparr>"

definition zero_MinerMinerSoftware :: MinerMinerSoftware where
  "zero_MinerMinerSoftware = \<lparr>MMS_MinerID = 0, MMS_MinerSoftwareID = 0, FilePath = []\<rparr>"

definition zero_MinerSoftwareAlgos :: MinerSoftwareAlgos where
  "zero_MinerSoftwareAlgos = \<lparr>MSA_ID = 0, MSA_MinerSoftwareID = 0, MSA_AlgorithmID = 0,
     MSA_Name = [], ExtraParams = [], DoNotUse = None\<rparr>"

text \<open>
  \<open>Find(&dest)\<close> into a single struct: the destination starts as the zero value and
  receives the first row of the result, if there is one; a query that finds nothing,
  or fails, leaves it as it was.
\<close>

definition Find :: "'a \<Rightarrow> 'a list \<Rightarrow> 'a" where
  "Find dest rows = (case rows of [] \<Rightarrow> dest | r # _ \<Rightarrow> r)"

section \<open>Optimization selector: \<open>getBestSoftwareAlgo\<close>\<close>

text \<open>The three grouped subqueries over \<open>miner_stats\<close> and \<open>pool_stats\<close>.\<close>

record avg_row =
  avg_miner_id :: nat
  avg_miner_software_id :: nat
  avg_algorithm_id :: nat
  average_work :: real
  avg_mh_factor :: real

record latest_row =
  latest_miner_id :: nat
  latest_miner_software_id :: nat
  latest_algorithm_id :: nat
  latest_stat_id :: nat

record latest_pool_row =
  latest_pool_stat_id :: nat
  latest_pool_id :: nat

text \<open>\<open>MAX(id)\<close> of a non-empty group.\<close>

definition max_id :: "nat list \<Rightarrow> nat" where
  "max_id ids = foldr max ids 0"

text \<open>\<open>AVG(work_per_second)\<close> of a non-empty group.\<close>

definition avg :: "real list \<Rightarrow> real" where
  "avg xs = sum_list xs / real (length xs)"

definition subAvgWork :: "database \<Rightarrow> nat \<Rightarrow> avg_row list" where
  "subAvgWork db minerID =
     (let sel = filter (\<lambda>s. stat_miner_id s = minerID) (miner_stats db);
          key = (\<lambda>s. (stat_miner_id s, stat_miner_software_id s, stat_algorithm_id s,
                       stat_mh_factor s))
      in map (\<lambda>(m, sw, al, f).
                \<lparr>avg_miner_id = m, avg_miner_software_id = sw, avg_algorithm_id = al,
                 average_work = avg (map work_per_second (filter (\<lambda>s. key s = (m, sw, al, f)) sel)),
                 avg_mh_factor = f\<rparr>)
             (remdups (map key sel)))"

definition subLatestStat :: "database \<Rightarrow> nat \<Rightarrow> latest_row list" where
  "subLatestStat db minerID =
     (let sel = filter (\<lambda>s. stat_miner_id s = minerID) (miner_stats db);
          key = (\<lambda>s. (stat_miner_id s, stat_miner_software_id s, stat_algorithm_id s))
      in map (\<lambda>(m, sw, al).
                \<lparr>latest_miner_id = m, latest_miner_software_id = sw, latest_algorithm_id = al,
                 latest_stat_id = max_id (map stat_id (filter (\<lambda>s. key s = (m, sw, al)) sel))\<rparr>)
             (remdups (map key sel)))"

definition subLatestPoolStat :: "database \<Rightarrow> latest_pool_row list" where
  "subLatestPoolStat db =
     map (\<lambda>p. \<lparr>latest_pool_stat_id =
                  max_id (map pool_stat_id (filter (\<lambda>s. pool_stat_pool_id s = p) (pool_stats db))),
               latest_pool_id = p\<rparr>)
         (remdups (map pool_stat_pool_id (pool_stats db)))"

text \<open>A row of the main query's join: the selected \<open>miner_software_algos.*\<close> columns and
  the columns the \<open>ORDER BY\<close> expression reads.\<close>

record joined_row =
  row_algo :: MinerSoftwareAlgos
  row_price :: real
  row_profit_estimate :: real
  row_profit_actual24_hours :: real
  row_average_work :: real
  row_stat_mh_factor :: real
  row_pool_mh_factor :: real

text \<open>The inner joins, in the order of the query, and its \<open>WHERE\<close> clause.\<close>

definition joined :: "database \<Rightarrow> nat \<Rightarrow> joined_row list" where
  "joined db minerID =
     [\<lparr>row_algo = msa, row_price = price cp, row_profit_estimate = profit_estimate ps,
       row_profit_actual24_hours = profit_actual24_hours ps,
       row_average_work = average_work av, row_stat_mh_factor = avg_mh_factor av,
       row_pool_mh_factor = pool_mh_factor po\<rparr>.
        m \<leftarrow> miners db,
        ls \<leftarrow> subLatestStat db minerID, latest_miner_id ls = Miner_ID m,
        st \<leftarrow> miner_stats db, stat_id st = latest_stat_id ls,
        sw \<leftarrow> miner_softwares db, latest_miner_software_id ls = MinerSoftware_ID sw,
        al \<leftarrow> algorithms db, Algorithm_ID al = latest_algorithm_id ls,
        msa \<leftarrow> miner_software_algos db,
          MSA_AlgorithmID msa = Algorithm_ID al \<and> MSA_MinerSoftwareID msa = MinerSoftware_ID sw,
        po \<leftarrow> pools db, pool_algorithm_id po = Algorithm_ID al,
        lps \<leftarrow> subLatestPoolStat db, latest_pool_id lps = pool_id po,
        ps \<leftarrow> pool_stats db, pool_stat_id ps = latest_pool_stat_id lps,
        cp \<leftarrow> coin_prices db, coin_price_id ps = coin_id cp,
        av \<leftarrow> subAvgWork db minerID,
          avg_miner_id av = Miner_ID m \<and> avg_miner_software_id av = MinerSoftware_ID sw
            \<and> avg_algorithm_id av = Algorithm_ID al,
        Miner_ID m = minerID \<and> (DoNotUse msa = None \<or> DoNotUse msa = Some False)]"

text \<open>
  \<open>orderLogic\<close>: the expression the rows are ordered by, descending. \<open>useEstimates\<close> is
  a \<open>uint8\<close>; the 24-hour actuals are used exactly when it is \<open>0\<close>.
\<close>

definition orderLogic :: "nat \<Rightarrow> joined_row \<Rightarrow> real" where
  "orderLogic useEstimates r =
     (if useEstimates = 0
      then row_price r * 0.001 * row_profit_actual24_hours r
             * (row_stat_mh_factor r / row_pool_mh_factor r) * row_average_work r
      else row_price r * row_profit_estimate r
             * (row_stat_mh_factor r / row_pool_mh_factor r) * row_average_work r)"

text \<open>
  The database evaluates the ordering expression on every row that passed the
  \<open>WHERE\<close> clause; a division by zero there makes the whole statement fail (as
  PostgreSQL does; the connection is opened with a \<open>TimeZone\<close> parameter). The error
  that \<open>Find\<close> returns is not looked at by \<open>getBestSoftwareAlgo\<close>, and the destination
  stays the zero value.
\<close>

definition query_fails :: "joined_row list \<Rightarrow> bool" where
  "query_fails rows = (\<exists>r \<in> set rows. row_pool_mh_factor r = 0)"

text \<open>
  \<open>ORDER BY e DESC LIMIT 1\<close>. SQL leaves the order among rows of equal \<open>e\<close> open; the
  model takes the one a stable sort puts first.
\<close>

definition order_desc_limit1 :: "(joined_row \<Rightarrow> real) \<Rightarrow> joined_row list \<Rightarrow> joined_row list" where
  "order_desc_limit1 e rows = take 1 (sort_key (\<lambda>r. - e r) rows)"

text \<open>
  The ways in which the program stops going on: the fatal exits (\<open>log.Fatalf\<close>,
  \<open>log.Fatal\<close>), the panic of an integer division by zero, and \<open>Blocked\<close>, which is not
  an exit: the program stays for ever in a call that does not return.
\<close>

datatype error =
    MinerNotFound
  | NoViableOptimization
  | BadSoftwareOrAlgoLink
  | NoFilePath
  | CommitFailed
  | StartFailed
  | Unkillable
  | DivideByZero
  | Blocked

definition bestMinerSoftwareAlgo :: "database \<Rightarrow> nat \<Rightarrow> nat \<Rightarrow> MinerSoftwareAlgos" where
  "bestMinerSoftwareAlgo db minerID useEstimates =
     (let rows = joined db minerID
      in if query_fails rows then zero_MinerSoftwareAlgos
         else Find zero_MinerSoftwareAlgos
                (map row_algo (order_desc_limit1 (orderLogic useEstimates) rows)))"

definition getBestSoftwareAlgo :: "database \<Rightarrow> nat \<Rightarrow> nat \<Rightarrow> error + MinerSoftwareAlgos" where
  "getBestSoftwareAlgo db minerID useEstimates =
     (let best = bestMinerSoftwareAlgo db minerID useEstimates
      in if zero_MinerSoftwareAlgos = best then Inl NoViableOptimization else Inr best)"

section \<open>Configuration, environment and program state\<close>

text \<open>The options of \<open>Automate.hcl\<close> that the program reads after connecting.
  \<open>UseEstimates\<close> is a \<open>uint8\<close>, \<open>OptimizationCheckTime\<close> a Go \<open>int\<close>.\<close>

record Config =
  MinerName :: string
  PoolPassword :: string
  Wallet :: string
  UseEstimates :: nat
  OptimizationCheckTime :: int
  EmailServer :: string

text \<open>
  Every call that leaves the program is recorded, in order. \<open>Optimize\<close> is the
  selector's query; \<open>Begin\<close> opens a transaction, \<open>Commit\<close> and \<open>Rollback\<close> close it:
  these are \<open>db.Begin()\<close>, \<open>tx.Commit()\<close> and \<open>tx.Rollback()\<close> of the program and,
  around a write that the program issues on the connection itself, the transaction that
  the object-relational layer opens and commits on its own when the connection is
  configured so; \<open>Save m\<close> is a \<open>Save\<close> of the Device record, \<open>m\<close> being the record
  as it is written; \<open>Email subject body\<close> is a call of \<open>SendEmail\<close>; the others are the
  process calls \<open>proc.Kill()\<close>, \<open>proc.Wait()\<close>, \<open>time.Sleep\<close> (seconds),
  \<open>process.PidExists\<close> with the answer it gave, and \<open>os.StartProcess\<close> with the
  identifier it returned (\<open>None\<close> when the start was refused).
\<close>

datatype event =
    Optimize
  | Begin
  | Save Miner
  | Commit
  | Rollback
  | Email string string
  | Kill nat
  | Wait nat
  | Sleep nat
  | PidExists nat bool
  | StartProcess string "string list" "nat option"

text \<open>
  What the program cannot decide itself is a parameter: the answer of each call may
  depend on everything that happened before it (the calls recorded so far).
  \<open>wait_returns\<close> says whether a \<open>proc.Wait()\<close> made at this point returns:
  \<open>os.Process.Wait\<close> returns when the process has exited, and a process that never
  exits keeps the caller in the call for ever. \<open>insert_id\<close> is the key that the database
  gives to a row inserted into the device table. \<open>default_transaction\<close> says whether the
  connection runs a write issued on the connection itself in a transaction of its own;
  this is the default of the object-relational layer and is settled by \<open>Connect\<close>.
  \<open>Connect\<close>, \<open>VerifyMiner\<close> and \<open>GeneratePoolURL\<close> are functions of the shared
  package, \<open>time_String\<close> is \<open>time.Time.String\<close>.
\<close>

record world =
  pid_exists :: "event list \<Rightarrow> nat \<Rightarrow> bool"
  wait_returns :: "event list \<Rightarrow> nat \<Rightarrow> bool"
  start_process :: "event list \<Rightarrow> string \<Rightarrow> string list \<Rightarrow> nat option"
  commit_ok :: "event list \<Rightarrow> bool"
  insert_id :: "Miner list \<Rightarrow> nat"
  default_transaction :: bool
  time_Now :: "event list \<Rightarrow> nat"
  time_String :: "nat \<Rightarrow> string"
  VerifyMiner :: "database \<Rightarrow> string \<Rightarrow> database \<times> nat"
  GeneratePoolURL :: "database \<Rightarrow> nat \<Rightarrow> string"

text \<open>
  The variables of \<open>main\<close>, the committed content of the database, and the calls
  made so far (oldest first). \<open>proc\<close> is the identifier of the process handle.
  \<open>secondsSlept\<close> is a Go \<open>int\<close>; it is set to zero or grows by 30 with every 30
  seconds of sleep, so it stays far below \<open>2^63\<close> in any run, and it is modelled as an
  integer without a bound.
\<close>

record state =
  db_now :: database
  minerID :: nat
  thisMiner :: Miner
  proc :: nat
  params :: "string list"
  filePath :: string
  secondsSlept :: int
  trace :: "event list"

definition emit :: "event list \<Rightarrow> state \<Rightarrow> state" where
  "emit es s = s\<lparr>trace := trace s @ es\<rparr>"

text \<open>
  \<open>Save\<close> of a Device record. A record whose key is zero has no key for the
  object-relational layer: it is inserted as a new row, the database gives the row its
  key, and the key is written back into the record in memory (\<open>saved_record\<close>). A record
  with a key replaces the row that has this key, all columns, and is inserted with its
  key when no row has it.
\<close>

definition saved_record :: "world \<Rightarrow> Miner \<Rightarrow> Miner list \<Rightarrow> Miner" where
  "saved_record w m tbl = (if Miner_ID m = 0 then m\<lparr>Miner_ID := insert_id w tbl\<rparr> else m)"

definition save_miner :: "world \<Rightarrow> Miner \<Rightarrow> Miner list \<Rightarrow> Miner list" where
  "save_miner w m tbl =
     (if Miner_ID m = 0 then tbl @ [saved_record w m tbl]
      else if \<exists>r \<in> set tbl. Miner_ID r = Miner_ID m
      then map (\<lambda>r. if Miner_ID r = Miner_ID m then m else r) tbl
      else tbl @ [m])"

text \<open>\<open>strings.Split(s, sep)\<close> for a separator of one byte: the pieces between the
  occurrences of the separator, empty pieces included.\<close>

primrec Split :: "string \<Rightarrow> char \<Rightarrow> string list" where
  "Split [] sep = [[]]"
| "Split (c # cs) sep =
     (if c = sep then [] # Split cs sep
      else (case Split cs sep of [] \<Rightarrow> [[c]] | w # ws \<Rightarrow> (c # w) # ws))"

text \<open>\<open>strings.Join\<close> with a separator of one byte.\<close>

fun Join :: "string list \<Rightarrow> char \<Rightarrow> string" where
  "Join [] sep = []"
| "Join [p] sep = p"
| "Join (p # q # ps) sep = p @ sep # Join (q # ps) sep"

section \<open>Launch spec builder: \<open>changeAlgoGetParams\<close>\<close>

definition change_body :: "world \<Rightarrow> MinerSoftware \<Rightarrow> Algorithm \<Rightarrow> event list \<Rightarrow> string" where
  "change_body w minerSoft algo h =
     ''Software: '' @ MinerSoftware_Name minerSoft @ [CHR 0x0D, CHR 0x0A] @
     ''Algo: '' @ Algorithm_Name algo @ [CHR 0x0D, CHR 0x0A] @
     ''Changed: '' @ time_String w (time_Now w h) @ [CHR 0x0D, CHR 0x0A]"

definition build_params ::
  "Config \<Rightarrow> MinerSoftware \<Rightarrow> MinerSoftwareAlgos \<Rightarrow> string \<Rightarrow> string list" where
  "build_params config minerSoft bestSoftwareAlgo poolURL =
     [MinerSoftware_Name minerSoft,
      AlgoParam minerSoft, MSA_Name bestSoftwareAlgo,
      PoolParam minerSoft, poolURL,
      WalletParam minerSoft, Wallet config,
      PasswordParam minerSoft, PoolPassword config]
     @ (if length (OtherParams minerSoft) > 0 then Split (OtherParams minerSoft) CHR '' '' else [])
     @ (if length (ExtraParams bestSoftwareAlgo) > 0
        then Split (ExtraParams bestSoftwareAlgo) CHR '' '' else [])"

text \<open>The four lookups of the builder: the software and the algorithm of the selected
  combination (\<open>Where("id = ?", ...).Find\<close>), the file path registered for this device
  and that software, and the latest version of the device record
  (\<open>tx.First(miner, miner.ID)\<close>, which leaves \<open>*miner\<close> as it is when no row is found).\<close>

definition find_software :: "database \<Rightarrow> MinerSoftwareAlgos \<Rightarrow> MinerSoftware" where
  "find_software db bestSoftwareAlgo =
     Find zero_MinerSoftware
       (filter (\<lambda>r. MinerSoftware_ID r = MSA_MinerSoftwareID bestSoftwareAlgo)
          (miner_softwares db))"

definition find_algorithm :: "database \<Rightarrow> MinerSoftwareAlgos \<Rightarrow> Algorithm" where
  "find_algorithm db bestSoftwareAlgo =
     Find zero_Algorithm
       (filter (\<lambda>r. Algorithm_ID r = MSA_AlgorithmID bestSoftwareAlgo) (algorithms db))"

definition find_details :: "database \<Rightarrow> Miner \<Rightarrow> MinerSoftware \<Rightarrow> MinerMinerSoftware" where
  "find_details db miner minerSoft =
     Find zero_MinerMinerSoftware
       (filter (\<lambda>r. MMS_MinerID r = Miner_ID miner
                     \<and> MMS_MinerSoftwareID r = MinerSoftware_ID minerSoft)
          (miner_miner_softwares db))"

definition reread_miner :: "database \<Rightarrow> Miner \<Rightarrow> Miner" where
  "reread_miner db miner = Find miner (filter (\<lambda>r. Miner_ID r = Miner_ID miner) (miners db))"

text \<open>
  The result is \<open>Inl (e, s)\<close> when \<open>log.Fatalf\<close> ended the program in state \<open>s\<close>
  (the open transaction is never committed), and \<open>Inr ((params, filePath), s)\<close> when
  the function returned. It also returns, with the zero values \<open>(nil, "")\<close>, when the
  nil pointer dereference of \<open>*(miner.SendEmail)\<close> panics: the deferred function
  recovers and rolls the transaction back.
\<close>

definition changeAlgoGetParams ::
  "world \<Rightarrow> Config \<Rightarrow> MinerSoftwareAlgos \<Rightarrow> state
     \<Rightarrow> (error \<times> state) + ((string list \<times> string) \<times> state)" where
  "changeAlgoGetParams w config bestSoftwareAlgo s0 =
     (let s = emit [Begin] s0;
          db = db_now s;
          minerSoft = find_software db bestSoftwareAlgo;
          algo = find_algorithm db bestSoftwareAlgo
      in if zero_MinerSoftware = minerSoft \<or> zero_Algorithm = algo
         then Inl (BadSoftwareOrAlgoLink, s)
         else
          let minerSoftDetails = find_details db (thisMiner s) minerSoft
          in if zero_MinerMinerSoftware = minerSoftDetails
             then Inl (NoFilePath, s)
             else
              let body = change_body w minerSoft algo (trace s);
                  miner = reread_miner db (thisMiner s);
                  s1 = s\<lparr>thisMiner := miner\<rparr>
              in if length (EmailServer config) > 0 \<and> SendEmail miner = None
                 then Inr (([], []), emit [Rollback] s1)
                 else
                  let s2 = (if length (EmailServer config) > 0 \<and> SendEmail miner = Some True
                            then emit [Email (MinerName config @ '': New Optimal'') body] s1
                            else s1);
                      changed = miner\<lparr>MinerSoftwareAlgoID := MSA_ID bestSoftwareAlgo,
                                       OfflineNoticeSent := False\<rparr>;
                      tx = db\<lparr>miners := save_miner w changed (miners db)\<rparr>;
                      miner' = saved_record w changed (miners db);
                      s3 = emit [Save miner'] (s2\<lparr>thisMiner := miner'\<rparr>);
                      poolURL = GeneratePoolURL w tx (MSA_AlgorithmID bestSoftwareAlgo);
                      ps = build_params config minerSoft bestSoftwareAlgo poolURL
                  in if commit_ok w (trace s3)
                     then Inr ((ps, FilePath minerSoftDetails),
                               emit [Commit] (s3\<lparr>db_now := tx\<rparr>))
                     else Inl (CommitFailed, emit [Commit] s3))"

section \<open>Process supervisor and control loop\<close>

text \<open>
  \<open>checkIn\<close>: the heartbeat, saved through the connection itself and not through a
  transaction of the program. When the connection runs such a write in a transaction of
  its own, the write reaches the store if that transaction commits; the error of a
  \<open>Save\<close> is not looked at, and the record in memory keeps the new check-in instant
  either way.
\<close>

definition checkIn :: "world \<Rightarrow> state \<Rightarrow> state" where
  "checkIn w s =
     (let stamped = (thisMiner s)\<lparr>LastCheckIn := time_Now w (trace s)\<rparr>;
          m = saved_record w stamped (miners (db_now s));
          written = (db_now s)\<lparr>miners := save_miner w stamped (miners (db_now s))\<rparr>
      in if default_transaction w
         then (let s1 = emit [Begin, Save m] (s\<lparr>thisMiner := m\<rparr>)
               in if commit_ok w (trace s1) then emit [Commit] (s1\<lparr>db_now := written\<rparr>)
                  else emit [Commit] s1)
         else emit [Save m] (s\<lparr>thisMiner := m, db_now := written\<rparr>))"

text \<open>\<open>openProcess\<close>, with the assignment of its result to \<open>proc\<close>.\<close>

definition openProcess :: "world \<Rightarrow> string \<Rightarrow> string list \<Rightarrow> state \<Rightarrow> (error \<times> state) + state" where
  "openProcess w path args s =
     (case start_process w (trace s) path args of
        None \<Rightarrow> Inl (StartFailed, emit [StartProcess path args None] s)
      | Some pid \<Rightarrow> Inr (emit [StartProcess path args (Some pid)] (s\<lparr>proc := pid\<rparr>)))"

text \<open>One probe of the current process: \<open>process.PidExists(int32(proc.Pid))\<close>.\<close>

definition probe :: "world \<Rightarrow> state \<Rightarrow> bool \<times> state" where
  "probe w s =
     (let e = pid_exists w (trace s) (proc s) in (e, emit [PidExists (proc s) e] s))"

definition maxKillNumber :: nat where
  "maxKillNumber = 1000"

definition unkillable_issue :: string where
  "unkillable_issue = ''Fatal error: Unable to close inferior process after 1,000 attempts.''"

definition unkillable_body :: string where
  "unkillable_body = ''Please review the miner for details and report this issue.''"

text \<open>
  The loop \<open>for exists { ... }\<close> of the switch, entered with \<open>timesKilled\<close> and the
  answer of the last probe. Each round kills, waits, sleeps ten seconds and probes; when
  the wait does not return the program stays in it (\<open>Blocked\<close>, with the calls made so
  far) and neither retries nor exits.
\<close>

function kill_loop :: "world \<Rightarrow> Config \<Rightarrow> nat \<Rightarrow> bool \<Rightarrow> state \<Rightarrow> (error \<times> state) + state" where
  "kill_loop w config timesKilled exists s =
     (if exists then
        (if timesKilled + 1 > maxKillNumber
         then Inl (Unkillable,
                   if length (EmailServer config) > 0
                   then emit [Email unkillable_issue unkillable_body] s else s)
         else if wait_returns w (trace s @ [Kill (proc s)]) (proc s)
         then
          (let s1 = emit [Kill (proc s), Wait (proc s), Sleep 10] s;
               (e, s2) = probe w s1
           in kill_loop w config (timesKilled + 1) e s2)
         else Inl (Blocked, emit [Kill (proc s), Wait (proc s)] s))
      else Inr s)"
  by pat_completeness auto
termination
  by (relation "measure (\<lambda>(w, config, timesKilled, exists, s). Suc maxKillNumber - timesKilled)")
     auto

text \<open>Stopping the current process for a switch: kill, wait (which returns once the
  process has exited), probe, and the loop with \<open>timesKilled := 0\<close>.\<close>

definition terminate :: "world \<Rightarrow> Config \<Rightarrow> state \<Rightarrow> (error \<times> state) + state" where
  "terminate w config s =
     (if wait_returns w (trace s @ [Kill (proc s)]) (proc s)
      then (let (e, s1) = probe w (emit [Kill (proc s), Wait (proc s)] s)
            in kill_loop w config 0 e s1)
      else Inl (Blocked, emit [Kill (proc s), Wait (proc s)] s))"

text \<open>The body of \<open>if optimizationAlgo.ID != thisMiner.MinerSoftwareAlgoID\<close>.\<close>

definition switch_algo :: "world \<Rightarrow> Config \<Rightarrow> MinerSoftwareAlgos \<Rightarrow> state \<Rightarrow> (error \<times> state) + state" where
  "switch_algo w config optimizationAlgo s =
     (case terminate w config s of
           Inl x \<Rightarrow> Inl x
         | Inr s2 \<Rightarrow>
            (case changeAlgoGetParams w config optimizationAlgo s2 of
               Inl x \<Rightarrow> Inl x
             | Inr ((ps, fp), s3) \<Rightarrow> openProcess w fp ps (s3\<lparr>params := ps, filePath := fp\<rparr>)))"

text \<open>The branch taken when it is time to check for an optimization.\<close>

definition reoptimize :: "world \<Rightarrow> Config \<Rightarrow> state \<Rightarrow> (error \<times> state) + state" where
  "reoptimize w config s =
     (let s1 = emit [Optimize] (s\<lparr>secondsSlept := 0\<rparr>)
      in case getBestSoftwareAlgo (db_now s1) (minerID s1) (UseEstimates config) of
           Inl e \<Rightarrow> Inl (e, s1)
         | Inr optimizationAlgo \<Rightarrow>
            if MSA_ID optimizationAlgo \<noteq> MinerSoftwareAlgoID (thisMiner s1)
            then switch_algo w config optimizationAlgo s1
            else Inr s1)"

definition processCheckTime :: int where
  "processCheckTime = 30"

text \<open>The \<open>else\<close> branch: sleep, probe, heartbeat or restart. The wait of the restart
  is made on a process that the probe has just found gone; it has nothing to wait for
  and returns.\<close>

definition tick :: "world \<Rightarrow> state \<Rightarrow> (error \<times> state) + state" where
  "tick w s =
     (let s1 = emit [Sleep (nat processCheckTime)]
                 (s\<lparr>secondsSlept := secondsSlept s + processCheckTime\<rparr>);
          (e, s2) = probe w s1
      in if e then Inr (checkIn w s2)
         else openProcess w (filePath s2) (params s2) (emit [Kill (proc s2), Wait (proc s2)] s2))"

text \<open>
  One iteration of \<open>for { ... }\<close>. Go's \<open>%\<close> truncates towards zero (\<open>smod\<close>) and
  panics on a zero divisor; the panic runs the deferred calls of \<open>main\<close> (\<open>proc.Kill()\<close>,
  then the recovering \<open>tx.Rollback()\<close>) and the program ends.
\<close>

definition loop_step :: "world \<Rightarrow> Config \<Rightarrow> state \<Rightarrow> (error \<times> state) + state" where
  "loop_step w config s =
     (if secondsSlept s > 0 \<and> OptimizationCheckTime config = 0
      then Inl (DivideByZero, emit [Kill (proc s), Rollback] s)
      else if secondsSlept s > 0 \<and> secondsSlept s smod OptimizationCheckTime config = 0
      then reoptimize w config s
      else tick w s)"

text \<open>\<open>n\<close> iterations of the loop; the run goes no further once a step yields \<open>Inl\<close>
  (the program has ended, or it stays blocked in a wait).\<close>

primrec iterate :: "nat \<Rightarrow> world \<Rightarrow> Config \<Rightarrow> state \<Rightarrow> (error \<times> state) + state" where
  "iterate 0 w config s = Inr s"
| "iterate (Suc n) w config s =
     (case loop_step w config s of Inl x \<Rightarrow> Inl x | Inr s' \<Rightarrow> iterate n w config s')"

text \<open>The lookup of the device record at startup.\<close>

definition find_miner :: "database \<Rightarrow> nat \<Rightarrow> Miner" where
  "find_miner db mid = Find zero_Miner (filter (\<lambda>r. Miner_ID r = mid) (miners db))"

text \<open>\<open>main\<close> up to the loop, on the database as \<open>VerifyAndUpdateSchema\<close> left it.\<close>

definition startup :: "world \<Rightarrow> Config \<Rightarrow> database \<Rightarrow> (error \<times> state) + state" where
  "startup w config db0 =
     (let (tx, mid) = VerifyMiner w db0 (MinerName config);
          found = find_miner tx mid;
          s = \<lparr>db_now = db0, minerID = mid, thisMiner = found, proc = 0, params = [],
               filePath = [], secondsSlept = 0, trace = [Begin]\<rparr>
      in if zero_Miner = found then Inl (MinerNotFound, s)
         else if \<not> commit_ok w (trace s) then Inl (CommitFailed, emit [Commit] s)
         else
          let s1 = emit [Commit, Optimize] (s\<lparr>db_now := tx\<rparr>)
          in case getBestSoftwareAlgo (db_now s1) mid (UseEstimates config) of
               Inl e \<Rightarrow> Inl (e, s1)
             | Inr bestSoftwareAlgo \<Rightarrow>
                (case changeAlgoGetParams w config bestSoftwareAlgo s1 of
                   Inl x \<Rightarrow> Inl x
                 | Inr ((ps, fp), s2) \<Rightarrow> openProcess w fp ps (s2\<lparr>params := ps, filePath := fp\<rparr>)))"

section \<open>Reading the record of calls\<close>

text \<open>The state in which a run of a part of the program ended, and the calls it made
  after state \<open>s\<close>.\<close>

definition final :: "(error \<times> state) + state \<Rightarrow> state" where
  "final r = (case r of Inl (e, s) \<Rightarrow> s | Inr s \<Rightarrow> s)"

definition since :: "state \<Rightarrow> (error \<times> state) + state \<Rightarrow> event list" where
  "since s r = drop (length (trace s)) (trace (final r))"

definition is_start :: "event \<Rightarrow> bool" where
  "is_start e = (case e of StartProcess path args r \<Rightarrow> True | _ \<Rightarrow> False)"

definition is_probe :: "event \<Rightarrow> bool" where
  "is_probe e = (case e of PidExists p b \<Rightarrow> True | _ \<Rightarrow> False)"

definition is_save :: "event \<Rightarrow> bool" where
  "is_save e = (case e of Save m \<Rightarrow> True | _ \<Rightarrow> False)"

definition no_start :: "event list \<Rightarrow> bool" where
  "no_start es = (filter is_start es = [])"

text \<open>The heartbeats among the calls of a run of ticks (a tick saves the device record
  only as a heartbeat), and the retries of the kill loop among some calls (each retry
  sleeps ten seconds once, and nothing else sleeps ten seconds).\<close>

definition heartbeats :: "event list \<Rightarrow> nat" where
  "heartbeats es = length (filter is_save es)"

definition retries :: "event list \<Rightarrow> nat" where
  "retries es = count_list es (Sleep 10)"

text \<open>One retry of the kill loop on a process that is still there afterwards.\<close>

definition retry :: "nat \<Rightarrow> event list" where
  "retry p = [Kill p, Wait p, Sleep 10, PidExists p True]"

text \<open>The path and arguments of the last process that was started.\<close>

definition last_start :: "event list \<Rightarrow> (string \<times> string list) option" where
  "last_start es =
     (case filter (\<lambda>e. case e of StartProcess path args (Some pid) \<Rightarrow> True | _ \<Rightarrow> False) (rev es) of
        StartProcess path args r # _ \<Rightarrow> Some (path, args)
      | _ \<Rightarrow> None)"

text \<open>
  \<open>dead_then_start p dead es\<close>: reading \<open>es\<close> from the left, every start of a
  process comes at a moment when the last probe of \<open>p\<close> said that \<open>p\<close> does not
  exist (\<open>dead\<close> is what is known before \<open>es\<close>); \<open>known_dead\<close> is what is known
  after \<open>es\<close>.
\<close>

primrec known_dead :: "nat \<Rightarrow> bool \<Rightarrow> event list \<Rightarrow> bool" where
  "known_dead p dead [] = dead"
| "known_dead p dead (e # es) =
     known_dead p (case e of PidExists q b \<Rightarrow> (if q = p then \<not> b else dead) | _ \<Rightarrow> dead) es"

primrec dead_then_start :: "nat \<Rightarrow> bool \<Rightarrow> event list \<Rightarrow> bool" where
  "dead_then_start p dead [] = True"
| "dead_then_start p dead (e # es) =
     (case e of
        PidExists q b \<Rightarrow> dead_then_start p (if q = p then \<not> b else dead) es
      | StartProcess path args r \<Rightarrow> dead \<and> dead_then_start p dead es
      | _ \<Rightarrow> dead_then_start p dead es)"


text \<open>The calls the launch spec builder makes: on the store and to the notifier.\<close>

definition is_store :: "event \<Rightarrow> bool" where
  "is_store e = (case e of Begin \<Rightarrow> True | Commit \<Rightarrow> True | Rollback \<Rightarrow> True | Save m \<Rightarrow> True
                 | Email a b \<Rightarrow> True | _ \<Rightarrow> False)"

text \<open>What holds in every state of a run between two iterations: the counter of slept
  seconds is not negative, and \<open>filePath\<close> and \<open>params\<close> are those of the last process
  that was started.\<close>

definition run_inv :: "state \<Rightarrow> bool" where
  "run_inv s = (0 \<le> secondsSlept s \<and> last_start (trace s) = Some (filePath s, params s))"

section \<open>The specification's formulas\<close>

text \<open>
  The score as the specification writes it: in estimate mode
  \<open>price * profit_estimate * (avg_work_rate * sample_norm_factor / pool_norm_factor)\<close>,
  in actual mode
  \<open>price * 0.001 * profit_actual_24h * (avg_work_rate * sample_norm_factor / pool_norm_factor)\<close>.
\<close>

definition spec_score :: "nat \<Rightarrow> joined_row \<Rightarrow> real" where
  "spec_score useEstimates r =
     (if useEstimates \<noteq> 0
      then row_price r * row_profit_estimate r
             * (row_average_work r * row_stat_mh_factor r / row_pool_mh_factor r)
      else row_price r * 0.001 * row_profit_actual24_hours r
             * (row_average_work r * row_stat_mh_factor r / row_pool_mh_factor r))"

text \<open>
  The argument list as the specification words it: the nine fixed entries, with the
  name of the Algorithm as the algorithm name, then the two extra-argument strings
  split on whitespace (the pieces between runs of white space; an empty string has
  none).
\<close>

definition is_whitespace :: "char \<Rightarrow> bool" where
  "is_whitespace c = (c \<in> set [CHR '' '', CHR 0x09, CHR 0x0A, CHR 0x0B, CHR 0x0C, CHR 0x0D])"

primrec spec_split_acc :: "string \<Rightarrow> string \<Rightarrow> string list" where
  "spec_split_acc [] cur = (if cur = [] then [] else [cur])"
| "spec_split_acc (c # cs) cur =
     (if is_whitespace c
      then (if cur = [] then spec_split_acc cs [] else cur # spec_split_acc cs [])
      else spec_split_acc cs (cur @ [c]))"

definition spec_split_whitespace :: "string \<Rightarrow> string list" where
  "spec_split_whitespace x = spec_split_acc x []"

definition spec_params ::
  "Config \<Rightarrow> MinerSoftware \<Rightarrow> Algorithm \<Rightarrow> MinerSoftwareAlgos \<Rightarrow> string \<Rightarrow> string list" where
  "spec_params config software algorithm combination endpoint =
     [MinerSoftware_Name software,
      AlgoParam software, Algorithm_Name algorithm,
      PoolParam software, endpoint,
      WalletParam software, Wallet config,
      PasswordParam software, PoolPassword config]
     @ spec_split_whitespace (OtherParams software)
     @ spec_split_whitespace (ExtraParams combination)"

section \<open>Example data\<close>

text \<open>A device with one software and two combinations, \<open>combo_A\<close> scoring 120 and
  \<open>combo_B\<close> scoring 95 in either mode.\<close>

definition combo_A :: MinerSoftwareAlgos where
  "combo_A = \<lparr>MSA_ID = 1, MSA_MinerSoftwareID = 1, MSA_AlgorithmID = 1, MSA_Name = ''x17'',
     ExtraParams = [], DoNotUse = None\<rparr>"

definition combo_B :: MinerSoftwareAlgos where
  "combo_B = \<lparr>MSA_ID = 2, MSA_MinerSoftwareID = 1, MSA_AlgorithmID = 2, MSA_Name = ''x16r'',
     ExtraParams = ''-i 20'', DoNotUse = Some False\<rparr>"

definition demo_miner :: Miner where
  "demo_miner = \<lparr>Miner_ID = 1, Miner_Name = ''rig'', MinerSoftwareAlgoID = 0,
     SendEmail = Some True, LastCheckIn = 0, OfflineNoticeSent = True\<rparr>"

definition demo_software :: MinerSoftware where
  "demo_software = \<lparr>MinerSoftware_ID = 1, MinerSoftware_Name = ''worker'', AlgoParam = ''--algo'',
     PoolParam = ''--pool'', WalletParam = ''--wallet'', PasswordParam = ''--pass'',
     OtherParams = []\<rparr>"

definition demo_db :: database where
  "demo_db = \<lparr>miners = [demo_miner],
     algorithms = [\<lparr>Algorithm_ID = 1, Algorithm_Name = ''x17''\<rparr>,
                   \<lparr>Algorithm_ID = 2, Algorithm_Name = ''x16r''\<rparr>],
     miner_softwares = [demo_software],
     miner_miner_softwares =
       [\<lparr>MMS_MinerID = 1, MMS_MinerSoftwareID = 1, FilePath = ''/bin/worker''\<rparr>],
     miner_software_algos = [combo_B, combo_A],
     miner_stats =
       [\<lparr>stat_id = 1, stat_miner_id = 1, stat_miner_software_id = 1, stat_algorithm_id = 1,
         work_per_second = 8, stat_mh_factor = 1\<rparr>,
        \<lparr>stat_id = 2, stat_miner_id = 1, stat_miner_software_id = 1, stat_algorithm_id = 2,
         work_per_second = 10, stat_mh_factor = 1\<rparr>,
        \<lparr>stat_id = 3, stat_miner_id = 1, stat_miner_software_id = 1, stat_algorithm_id = 1,
         work_per_second = 12, stat_mh_factor = 1\<rparr>],
     pools = [\<lparr>pool_id = 1, pool_algorithm_id = 1, pool_mh_factor = 1\<rparr>,
              \<lparr>pool_id = 2, pool_algorithm_id = 2, pool_mh_factor = 1\<rparr>],
     pool_stats =
       [\<lparr>pool_stat_id = 1, pool_stat_pool_id = 1, coin_price_id = 1, profit_estimate = 12,
         profit_actual24_hours = 12000\<rparr>,
        \<lparr>pool_stat_id = 2, pool_stat_pool_id = 2, coin_price_id = 1, profit_estimate = 9.5,
         profit_actual24_hours = 9500\<rparr>],
     coin_prices = [\<lparr>coin_id = 1, price = 1\<rparr>]\<rparr>"

definition demo_config :: Config where
  "demo_config = \<lparr>MinerName = ''rig'', PoolPassword = ''x'', Wallet = ''W'', UseEstimates = 1,
     OptimizationCheckTime = 600, EmailServer = ''smtp.example.org''\<rparr>"

text \<open>An environment in which every wait returns, every start and every commit
  succeeds, a new row gets the key after the largest one, a write on the connection runs
  in a transaction of its own, and a probe is answered by \<open>alive\<close>.\<close>

definition demo_world :: "(event list \<Rightarrow> nat \<Rightarrow> bool) \<Rightarrow> world" where
  "demo_world alive = \<lparr>pid_exists = alive,
     wait_returns = (\<lambda>h p. True),
     start_process = (\<lambda>h path args. Some (Suc (length h))),
     commit_ok = (\<lambda>h. True),
     insert_id = (\<lambda>tbl. Suc (max_id (map Miner_ID tbl))),
     default_transaction = True,
     time_Now = length,
     time_String = (\<lambda>n. ''now''),
     VerifyMiner = (\<lambda>db name. (db, 1)),
     GeneratePoolURL = (\<lambda>db a. ''stratum+tcp://p:3333'')\<rparr>"

text \<open>The program running \<open>combo_A\<close> as process 42.\<close>

definition demo_state :: state where
  "demo_state = \<lparr>db_now = demo_db\<lparr>miners := [demo_miner\<lparr>MinerSoftwareAlgoID := 1\<rparr>]\<rparr>,
     minerID = 1, thisMiner = demo_miner\<lparr>MinerSoftwareAlgoID := 1\<rparr>, proc = 42,
     params = [''worker'', ''--algo'', ''x17'', ''--pool'', ''stratum+tcp://p:3333'',
               ''--wallet'', ''W'', ''--pass'', ''x''],
     filePath = ''/bin/worker'', secondsSlept = 0,
     trace = [StartProcess ''/bin/worker''
                [''worker'', ''--algo'', ''x17'', ''--pool'', ''stratum+tcp://p:3333'',
                 ''--wallet'', ''W'', ''--pass'', ''x''] (Some 42)]\<rparr>"

text \<open>The program running \<open>combo_B\<close> while \<open>combo_A\<close> scores higher, 600 seconds after
  the last check; and a process that survives the first kill and is gone after the first
  retry.\<close>

definition switch_state :: state where
  "switch_state = demo_state\<lparr>secondsSlept := 600,
      thisMiner := demo_miner\<lparr>MinerSoftwareAlgoID := 2\<rparr>,
      db_now := demo_db\<lparr>miners := [demo_miner\<lparr>MinerSoftwareAlgoID := 2\<rparr>]\<rparr>\<rparr>"

definition dies_after_retry :: "event list \<Rightarrow> nat \<Rightarrow> bool" where
  "dies_after_retry h p = (Sleep 10 \<notin> set h)"


text \<open>The example database without any throughput sample, and the program 600 seconds
  after its last check on that database.\<close>

definition no_stats_db :: database where
  "no_stats_db = demo_db\<lparr>miner_stats := []\<rparr>"

definition no_stats_state :: state where
  "no_stats_state = switch_state\<lparr>db_now := no_stats_db\<rparr>"

text \<open>The same program when the stored device record has no e-mail preference.\<close>

definition nil_pref_state :: state where
  "nil_pref_state = switch_state\<lparr>db_now := demo_db\<lparr>miners := [demo_miner\<lparr>SendEmail := None\<rparr>]\<rparr>\<rparr>"

text \<open>A database in which the rows that the lookups find exist and are all-zero
  records; the program on it; and the program on a variant in which only the registered
  file path is an all-zero row.\<close>

definition zero_catalog_db :: database where
  "zero_catalog_db = \<lparr>miners = [zero_Miner],
     algorithms = [zero_Algorithm],
     miner_softwares = [zero_MinerSoftware],
     miner_miner_softwares = [zero_MinerMinerSoftware],
     miner_software_algos = [zero_MinerSoftwareAlgos],
     miner_stats =
       [\<lparr>stat_id = 1, stat_miner_id = 0, stat_miner_software_id = 0, stat_algorithm_id = 0,
         work_per_second = 10, stat_mh_factor = 1\<rparr>],
     pools = [\<lparr>pool_id = 1, pool_algorithm_id = 0, pool_mh_factor = 1\<rparr>],
     pool_stats =
       [\<lparr>pool_stat_id = 1, pool_stat_pool_id = 1, coin_price_id = 1, profit_estimate = 12,
         profit_actual24_hours = 12000\<rparr>],
     coin_prices = [\<lparr>coin_id = 1, price = 1\<rparr>]\<rparr>"

definition zero_catalog_world :: world where
  "zero_catalog_world = (demo_world (\<lambda>h p. True))\<lparr>VerifyMiner := (\<lambda>db name. (db, 0))\<rparr>"

definition zero_catalog_state :: state where
  "zero_catalog_state = demo_state\<lparr>db_now := zero_catalog_db, minerID := 0,
     thisMiner := demo_miner\<lparr>Miner_ID := 0\<rparr>\<rparr>"

definition zero_path_state :: state where
  "zero_path_state = zero_catalog_state\<lparr>db_now := zero_catalog_db
     \<lparr>miner_softwares := [demo_software\<lparr>MinerSoftware_ID := 0\<rparr>],
      algorithms := [\<lparr>Algorithm_ID = 0, Algorithm_Name = ''x17''\<rparr>]\<rparr>\<rparr>"

text \<open>A software whose extra arguments hold a tab and two adjacent spaces, and a
  combination whose own name differs from the name of its algorithm.\<close>

definition tabbed_software :: MinerSoftware where
  "tabbed_software = demo_software\<lparr>OtherParams := ''-t'' @ [CHR 0x09] @ ''4  --fast''\<rparr>"

definition renamed_combo :: MinerSoftwareAlgos where
  "renamed_combo = combo_A\<lparr>MSA_Name := ''x17a'', ExtraParams := ''-i 20''\<rparr>"

definition tabbed_state :: state where
  "tabbed_state = switch_state\<lparr>db_now := (db_now switch_state)
     \<lparr>miner_softwares := [tabbed_software], miner_software_algos := [combo_B, renamed_combo]\<rparr>\<rparr>"


text \<open>A process that the first two probes find alive and every later probe finds gone.\<close>

definition dies_after_two_probes :: "event list \<Rightarrow> nat \<Rightarrow> bool" where
  "dies_after_two_probes h p = (length (filter is_probe h) < 2)"

text \<open>The example environment with a process that never exits: no wait on it returns,
  and every probe finds it alive.\<close>

definition never_exits_world :: world where
  "never_exits_world = (demo_world (\<lambda>h p. True))\<lparr>wait_returns := (\<lambda>h p. False)\<rparr>"

text \<open>The example environment with a process that is found alive after the first wait
  returned and on which no later wait returns.\<close>

definition first_wait_returns_world :: world where
  "first_wait_returns_world
     = (demo_world (\<lambda>h p. True))\<lparr>wait_returns := (\<lambda>h p. Wait p \<notin> set h)\<rparr>"

text \<open>The example configuration with an optimization period of zero seconds.\<close>

definition zero_period_config :: Config where
  "zero_period_config = demo_config\<lparr>OptimizationCheckTime := 0\<rparr>"



section \<open>Basic facts\<close>

declare kill_loop.simps [simp del]

subsection \<open>Recording calls\<close>

lemma emit_emit: "emit b (emit a s) = emit (a @ b) s"
  by (simp add: emit_def)

lemma emit_fields [simp]:
  "proc (emit es s) = proc s" "db_now (emit es s) = db_now s"
  "thisMiner (emit es s) = thisMiner s" "params (emit es s) = params s"
  "filePath (emit es s) = filePath s" "secondsSlept (emit es s) = secondsSlept s"
  "minerID (emit es s) = minerID s" "trace (emit es s) = trace s @ es"
  by (simp_all add: emit_def)

lemma emit_Nil [simp]: "emit [] s = s"
  by (simp add: emit_def)

lemma no_start_simps [simp]:
  "no_start []"
  "no_start (e # es) = (\<not> is_start e \<and> no_start es)"
  "no_start (xs @ ys) = (no_start xs \<and> no_start ys)"
  by (auto simp: no_start_def)

lemma is_start_simps [simp]:
  "is_start (StartProcess p a r)" "\<not> is_start (Kill n)" "\<not> is_start (Wait n)"
  "\<not> is_start (Sleep n)" "\<not> is_start (PidExists n b)" "\<not> is_start (Email x y)"
  "\<not> is_start Begin" "\<not> is_start Commit" "\<not> is_start Rollback" "\<not> is_start (Save m)"
  "\<not> is_start Optimize"
  by (simp_all add: is_start_def)

lemma retries_simps [simp]:
  "retries [] = 0"
  "retries (e # es) = (if e = Sleep 10 then Suc (retries es) else retries es)"
  "retries (xs @ ys) = retries xs + retries ys"
  by (simp_all add: retries_def)

subsection \<open>The kill loop: what a return and what an end of the run say\<close>

lemma kill_loop_Inr:
  "kill_loop w config k e s = Inr s' \<Longrightarrow>
     \<exists>new. s' = emit new s \<and> no_start new \<and>
       (if e then \<exists>pre. new = pre @ [PidExists (proc s) False] else new = [])"
proof (induction w config k e s rule: kill_loop.induct)
  case (1 w config k e s)
  show ?case
  proof (cases e)
    case False
    with "1.prems" show ?thesis by (simp add: kill_loop.simps)
  next
    case True
    note e = this
    show ?thesis
    proof (cases "k + 1 > maxKillNumber")
      case True
      with e "1.prems" show ?thesis by (simp add: kill_loop.simps)
    next
      case False
      note nk = this
      show ?thesis
      proof (cases "wait_returns w (trace s @ [Kill (proc s)]) (proc s)")
        case False
        with e nk "1.prems" show ?thesis by (simp add: kill_loop.simps)
      next
        case True
        note wr = this
        define s1 where "s1 = emit [Kill (proc s), Wait (proc s), Sleep 10] s"
        define b where "b = pid_exists w (trace s1) (proc s1)"
        define s2 where "s2 = emit [PidExists (proc s1) b] s1"
        have pr: "(b, s2) = probe w s1" by (simp add: probe_def b_def s2_def Let_def)
        have rec: "kill_loop w config (k + 1) b s2 = Inr s'"
          using "1.prems" e nk wr pr[symmetric]
          by (subst (asm) kill_loop.simps) (simp add: s1_def[symmetric] Let_def)
        from "1.IH"[OF e nk wr s1_def refl pr rec]
        obtain new where new: "s' = emit new s2" "no_start new"
          "if b then \<exists>pre. new = pre @ [PidExists (proc s2) False] else new = []" by blast
        have p: "proc s2 = proc s" "proc s1 = proc s" by (simp_all add: s2_def s1_def)
        show ?thesis
        proof (cases b)
          case True
          with new obtain pre where "new = pre @ [PidExists (proc s) False]" by (auto simp: p)
          with new e show ?thesis
            by (intro exI[of _ "[Kill (proc s), Wait (proc s), Sleep 10, PidExists (proc s) b] @ new"])
               (auto simp: s2_def s1_def emit_emit)
        next
          case False
          with new e show ?thesis
            by (intro exI[of _ "[Kill (proc s), Wait (proc s), Sleep 10, PidExists (proc s) b]"])
               (auto simp: s2_def s1_def emit_emit)
        qed
      qed
    qed
  qed
qed

lemma kill_loop_Inl:
  "kill_loop w config k e s = Inl (err, s') \<Longrightarrow> k \<le> maxKillNumber \<Longrightarrow>
     \<exists>new. s' = emit new s \<and> no_start new \<and>
       (err = Unkillable \<and> retries new = maxKillNumber - k
        \<or> err = Blocked \<and> retries new < maxKillNumber - k
            \<and> (\<exists>pre. new = pre @ [Kill (proc s), Wait (proc s)]))"
proof (induction w config k e s rule: kill_loop.induct)
  case (1 w config k e s)
  show ?case
  proof (cases e)
    case False
    with "1.prems" show ?thesis by (simp add: kill_loop.simps)
  next
    case True
    note e = this
    show ?thesis
    proof (cases "k + 1 > maxKillNumber")
      case True
      with e "1.prems" have k: "k = maxKillNumber" by simp
      from True e "1.prems" have "err = Unkillable"
        and "s' = (if length (EmailServer config) > 0
                   then emit [Email unkillable_issue unkillable_body] s else s)"
        by (simp_all add: kill_loop.simps)
      then show ?thesis
        by (cases "length (EmailServer config) > 0")
           (auto simp: k intro: exI[of _ "[]"] exI[of _ "[Email unkillable_issue unkillable_body]"])
    next
      case False
      note nk = this
      show ?thesis
      proof (cases "wait_returns w (trace s @ [Kill (proc s)]) (proc s)")
        case False
        with e nk "1.prems" have "err = Blocked" "s' = emit [Kill (proc s), Wait (proc s)] s"
          by (simp_all add: kill_loop.simps)
        with nk show ?thesis
          by (intro exI[of _ "[Kill (proc s), Wait (proc s)]"]) simp
      next
        case True
        note wr = this
        define s1 where "s1 = emit [Kill (proc s), Wait (proc s), Sleep 10] s"
        define b where "b = pid_exists w (trace s1) (proc s1)"
        define s2 where "s2 = emit [PidExists (proc s1) b] s1"
        have pr: "(b, s2) = probe w s1" by (simp add: probe_def b_def s2_def Let_def)
        have rec: "kill_loop w config (k + 1) b s2 = Inl (err, s')"
          using "1.prems" e nk wr pr[symmetric]
          by (subst (asm) kill_loop.simps) (simp add: s1_def[symmetric] Let_def)
        from nk have "k + 1 \<le> maxKillNumber" by simp
        from "1.IH"[OF e nk wr s1_def refl pr rec this]
        obtain new where new: "s' = emit new s2" "no_start new"
          "err = Unkillable \<and> retries new = maxKillNumber - (k + 1)
           \<or> err = Blocked \<and> retries new < maxKillNumber - (k + 1)
               \<and> (\<exists>pre. new = pre @ [Kill (proc s2), Wait (proc s2)])" by blast
        have p: "proc s2 = proc s" by (simp add: s2_def s1_def)
        let ?round = "[Kill (proc s), Wait (proc s), Sleep 10, PidExists (proc s) b]"
        have s': "s' = emit (?round @ new) s"
          using new(1) by (simp add: s2_def s1_def emit_emit)
        have ns: "no_start (?round @ new)" using new(2) by simp
        from new(3) show ?thesis
        proof
          assume "err = Unkillable \<and> retries new = maxKillNumber - (k + 1)"
          with nk have "err = Unkillable \<and> retries (?round @ new) = maxKillNumber - k"
            by auto
          with s' ns show ?thesis by blast
        next
          assume b: "err = Blocked \<and> retries new < maxKillNumber - (k + 1)
               \<and> (\<exists>pre. new = pre @ [Kill (proc s2), Wait (proc s2)])"
          then obtain pre where "new = pre @ [Kill (proc s), Wait (proc s)]"
            by (auto simp: p)
          then have "?round @ new = (?round @ pre) @ [Kill (proc s), Wait (proc s)]" by simp
          then have "\<exists>pre. ?round @ new = pre @ [Kill (proc s), Wait (proc s)]" by blast
          moreover from b nk have "err = Blocked \<and> retries (?round @ new) < maxKillNumber - k"
            by auto
          ultimately show ?thesis using s' ns by blast
        qed
      qed
    qed
  qed
qed

lemma terminate_blocked:
  "\<not> wait_returns w (trace s @ [Kill (proc s)]) (proc s) \<Longrightarrow>
     terminate w config s = Inl (Blocked, emit [Kill (proc s), Wait (proc s)] s)"
  by (simp add: terminate_def)

lemma terminate_kill_loop:
  "wait_returns w (trace s @ [Kill (proc s)]) (proc s) \<Longrightarrow>
     terminate w config s =
       kill_loop w config 0 (pid_exists w (trace s @ [Kill (proc s), Wait (proc s)]) (proc s))
         (emit [Kill (proc s), Wait (proc s),
                PidExists (proc s)
                  (pid_exists w (trace s @ [Kill (proc s), Wait (proc s)]) (proc s))] s)"
  by (simp add: terminate_def probe_def Let_def emit_emit)

lemma terminate_Inr:
  assumes "terminate w config s = Inr s'"
  shows "\<exists>pre. s' = emit (pre @ [PidExists (proc s) False]) s \<and> no_start pre"
proof -
  define b where "b = pid_exists w (trace s @ [Kill (proc s), Wait (proc s)]) (proc s)"
  define s1 where "s1 = emit [Kill (proc s), Wait (proc s), PidExists (proc s) b] s"
  have wr: "wait_returns w (trace s @ [Kill (proc s)]) (proc s)"
    using assms terminate_blocked[of w s config] by auto
  have t: "terminate w config s = kill_loop w config 0 b s1"
    using terminate_kill_loop[OF wr] by (simp add: b_def s1_def)
  with assms kill_loop_Inr[of w config 0 b s1 s']
  obtain new where new: "s' = emit new s1" "no_start new"
    "if b then \<exists>pre. new = pre @ [PidExists (proc s1) False] else new = []" by auto
  show ?thesis
  proof (cases b)
    case True
    with new obtain pre where "new = pre @ [PidExists (proc s) False]"
      by (auto simp: s1_def)
    with new show ?thesis
      by (intro exI[of _ "[Kill (proc s), Wait (proc s), PidExists (proc s) b] @ pre"])
         (simp add: s1_def emit_emit)
  next
    case False
    with new show ?thesis
      by (intro exI[of _ "[Kill (proc s), Wait (proc s)]"]) (simp add: s1_def)
  qed
qed

lemma terminate_Inl:
  assumes "terminate w config s = Inl (err, s')"
  shows "\<exists>new. s' = emit new s \<and> no_start new \<and>
           (err = Unkillable \<and> retries new = maxKillNumber
            \<or> err = Blocked \<and> retries new < maxKillNumber
                \<and> (\<exists>pre. new = pre @ [Kill (proc s), Wait (proc s)]))"
proof (cases "wait_returns w (trace s @ [Kill (proc s)]) (proc s)")
  case False
  from terminate_blocked[OF this, of config] assms
  have "err = Blocked" "s' = emit [Kill (proc s), Wait (proc s)] s" by simp_all
  then show ?thesis
    by (intro exI[of _ "[Kill (proc s), Wait (proc s)]"]) (simp add: maxKillNumber_def)
next
  case True
  define b where "b = pid_exists w (trace s @ [Kill (proc s), Wait (proc s)]) (proc s)"
  define s1 where "s1 = emit [Kill (proc s), Wait (proc s), PidExists (proc s) b] s"
  have t: "terminate w config s = kill_loop w config 0 b s1"
    using terminate_kill_loop[OF True] by (simp add: b_def s1_def)
  with assms kill_loop_Inl[of w config 0 b s1 err s']
  obtain new where new: "s' = emit new s1" "no_start new"
    "err = Unkillable \<and> retries new = maxKillNumber
     \<or> err = Blocked \<and> retries new < maxKillNumber
         \<and> (\<exists>pre. new = pre @ [Kill (proc s1), Wait (proc s1)])" by auto
  let ?first = "[Kill (proc s), Wait (proc s), PidExists (proc s) b]"
  have s': "s' = emit (?first @ new) s" using new(1) by (simp add: s1_def emit_emit)
  have ns: "no_start (?first @ new)" using new(2) by simp
  from new(3) show ?thesis
  proof
    assume "err = Unkillable \<and> retries new = maxKillNumber"
    then have "err = Unkillable \<and> retries (?first @ new) = maxKillNumber" by simp
    with s' ns show ?thesis by blast
  next
    assume b: "err = Blocked \<and> retries new < maxKillNumber
         \<and> (\<exists>pre. new = pre @ [Kill (proc s1), Wait (proc s1)])"
    then obtain pre where "new = pre @ [Kill (proc s), Wait (proc s)]"
      by (auto simp: s1_def)
    then have "?first @ new = (?first @ pre) @ [Kill (proc s), Wait (proc s)]" by simp
    then have "\<exists>pre. ?first @ new = pre @ [Kill (proc s), Wait (proc s)]" by blast
    moreover from b have "err = Blocked \<and> retries (?first @ new) < maxKillNumber" by simp
    ultimately show ?thesis using s' ns by blast
  qed
qed

subsection \<open>The builder: which calls it makes and which variables it leaves alone\<close>

lemma changeAlgoGetParams_frame:
  assumes "changeAlgoGetParams w config a s = Inl (err, s') \<or>
           changeAlgoGetParams w config a s = Inr (x, s')"
  shows "\<exists>new. trace s' = trace s @ new \<and> list_all is_store new \<and> proc s' = proc s
           \<and> params s' = params s \<and> filePath s' = filePath s
           \<and> secondsSlept s' = secondsSlept s \<and> minerID s' = minerID s"
  using assms
  by (auto simp: changeAlgoGetParams_def Let_def is_store_def split: if_splits)

lemma is_store_not [simp]:
  "is_store e \<Longrightarrow> \<not> is_start e" "is_store e \<Longrightarrow> \<not> is_probe e" "is_store e \<Longrightarrow> e \<noteq> Optimize"
  by (cases e; simp add: is_store_def is_start_def is_probe_def)+

lemma list_all_store_no_start: "list_all is_store es \<Longrightarrow> no_start es"
  by (induction es) auto

lemma known_dead_append:
  "known_dead p d (xs @ ys) = known_dead p (known_dead p d xs) ys"
  by (induction xs arbitrary: d) auto

lemma dead_then_start_append:
  "dead_then_start p d (xs @ ys) =
     (dead_then_start p d xs \<and> dead_then_start p (known_dead p d xs) ys)"
proof (induction xs arbitrary: d)
  case Nil
  show ?case by simp
next
  case (Cons e xs)
  show ?case by (cases e) (simp_all add: Cons.IH)
qed

lemma no_start_dead_then_start: "no_start es \<Longrightarrow> dead_then_start p d es"
proof (induction es arbitrary: d)
  case Nil
  show ?case by simp
next
  case (Cons e es)
  then show ?case by (cases e) simp_all
qed

lemma known_dead_no_probe: "list_all (\<lambda>e. \<not> is_probe e) es \<Longrightarrow> known_dead p d es = d"
proof (induction es arbitrary: d)
  case Nil
  show ?case by simp
next
  case (Cons e es)
  then show ?case by (cases e) (simp_all add: is_probe_def)
qed

lemma list_all_store_no_probe: "list_all is_store es \<Longrightarrow> list_all (\<lambda>e. \<not> is_probe e) es"
  by (induction es) auto

lemma since_emit [simp]: "since s (Inr (emit es s)) = es" "since s (Inl (e, emit es s)) = es"
  by (simp_all add: since_def final_def)

lemma since_trace:
  "trace s' = trace s @ es \<Longrightarrow> since s (Inr s') = es"
  "trace s' = trace s @ es \<Longrightarrow> since s (Inl (e, s')) = es"
  by (simp_all add: since_def final_def)

lemma openProcess_cases:
  "openProcess w path args s = Inr s' \<Longrightarrow>
     \<exists>pid. s' = emit [StartProcess path args (Some pid)] (s\<lparr>proc := pid\<rparr>)"
  "openProcess w path args s = Inl (err, s') \<Longrightarrow>
     err = StartFailed \<and> s' = emit [StartProcess path args None] s"
  by (auto simp: openProcess_def split: option.splits)

subsection \<open>The switch\<close>

lemma switch_algo_Inr:
  assumes "switch_algo w config a s = Inr s'"
  shows "\<exists>pre mid path args pid.
           trace s' = trace s @ pre @ [PidExists (proc s) False] @ mid
                        @ [StartProcess path args (Some pid)]
           \<and> no_start pre \<and> list_all is_store mid \<and> proc s' = pid
           \<and> params s' = args \<and> filePath s' = path"
proof -
  from assms obtain s2 where t: "terminate w config s = Inr s2"
    by (auto simp: switch_algo_def split: sum.splits)
  with assms obtain ps fp s3 where c: "changeAlgoGetParams w config a s2 = Inr ((ps, fp), s3)"
    and o: "openProcess w fp ps (s3\<lparr>params := ps, filePath := fp\<rparr>) = Inr s'"
    by (auto simp: switch_algo_def split: sum.splits)
  from terminate_Inr[OF t] obtain pre where
    pre: "s2 = emit (pre @ [PidExists (proc s) False]) s" "no_start pre" by blast
  from changeAlgoGetParams_frame[of w config a s2 _ s3 "(ps, fp)"] c obtain mid where
    mid: "trace s3 = trace s2 @ mid" "list_all is_store mid" by blast
  from openProcess_cases(1)[OF o] obtain pid where
    "s' = emit [StartProcess fp ps (Some pid)] (s3\<lparr>params := ps, filePath := fp, proc := pid\<rparr>)"
    by auto
  with pre mid show ?thesis
    by (intro exI[of _ pre] exI[of _ mid] exI[of _ fp] exI[of _ ps] exI[of _ pid])
       (simp add: emit_def)
qed

lemma switch_algo_dead_then_start:
  "dead_then_start (proc s) False (since s (switch_algo w config a s))"
proof (cases "terminate w config s")
  case (Inl x)
  obtain err s' where x: "x = (err, s')" by (cases x)
  from terminate_Inl[OF Inl[unfolded x]] obtain new where "s' = emit new s" "no_start new"
    by blast
  with Inl x show ?thesis
    by (simp add: switch_algo_def no_start_dead_then_start)
next
  case (Inr s2)
  from terminate_Inr[OF Inr] obtain pre where
    pre: "s2 = emit (pre @ [PidExists (proc s) False]) s" "no_start pre" by blast
  have kd: "known_dead (proc s) False (pre @ [PidExists (proc s) False]) = True"
    by (simp add: known_dead_append)
  have d1: "dead_then_start (proc s) False (pre @ [PidExists (proc s) False])"
    using pre(2) by (simp add: dead_then_start_append no_start_dead_then_start)
  show ?thesis
  proof (cases "changeAlgoGetParams w config a s2")
    case (Inl x)
    obtain err s3 where x: "x = (err, s3)" by (cases x)
    from changeAlgoGetParams_frame[of w config a s2 err s3] Inl x obtain mid where
      mid: "trace s3 = trace s2 @ mid" "list_all is_store mid" by blast
    have "since s (switch_algo w config a s) = (pre @ [PidExists (proc s) False]) @ mid"
      using Inr Inl x mid pre
      by (simp add: switch_algo_def since_def final_def)
    then show ?thesis
      using d1 mid(2) by (simp only: dead_then_start_append)
        (simp add: no_start_dead_then_start list_all_store_no_start)
  next
    case (Inr y)
    obtain ps fp s3 where y: "y = ((ps, fp), s3)" by (cases y) auto
    from changeAlgoGetParams_frame[of w config a s2 _ s3 "(ps, fp)"] Inr y obtain mid where
      mid: "trace s3 = trace s2 @ mid" "list_all is_store mid" by blast
    define s4 where "s4 = s3\<lparr>params := ps, filePath := fp\<rparr>"
    have "\<exists>r. since s (switch_algo w config a s)
           = (pre @ [PidExists (proc s) False]) @ mid @ [StartProcess fp ps r]"
      using \<open>terminate w config s = Inr s2\<close> Inr y mid pre
      by (cases "start_process w (trace s4) fp ps")
         (simp_all add: switch_algo_def since_def final_def openProcess_def s4_def[symmetric],
          simp_all add: s4_def)
    then obtain r where
      "since s (switch_algo w config a s)
         = (pre @ [PidExists (proc s) False]) @ mid @ [StartProcess fp ps r]" ..
    then show ?thesis
      using d1 kd mid(2)
      by (simp only: dead_then_start_append known_dead_append)
         (simp add: no_start_dead_then_start list_all_store_no_start
            known_dead_no_probe list_all_store_no_probe known_dead_append)
  qed
qed

subsection \<open>A process that every probe finds alive although every wait returns\<close>

lemma kill_loop_stubborn:
  assumes "\<forall>h. pid_exists w h (proc s)" "\<forall>h. wait_returns w h (proc s)"
  shows "n + k = maxKillNumber \<Longrightarrow>
     kill_loop w config k True s =
       Inl (Unkillable,
            emit (concat (replicate n (retry (proc s)))
                  @ (if length (EmailServer config) > 0
                     then [Email unkillable_issue unkillable_body] else [])) s)"
using assms proof (induction n arbitrary: k s)
  case 0
  then show ?case
    by (subst kill_loop.simps) (simp add: emit_def)
next
  case (Suc n)
  let ?s2 = "emit (retry (proc s)) s"
  have step: "kill_loop w config k True s = kill_loop w config (Suc k) True ?s2"
    using Suc.prems
    by (subst kill_loop.simps) (simp add: probe_def Let_def emit_emit retry_def)
  have "kill_loop w config (Suc k) True ?s2 =
     Inl (Unkillable,
            emit (concat (replicate n (retry (proc ?s2)))
                  @ (if length (EmailServer config) > 0
                     then [Email unkillable_issue unkillable_body] else [])) ?s2)"
    using Suc.prems by (intro Suc.IH) simp_all
  with step show ?case
    by (simp add: emit_emit)
qed

lemma terminate_stubborn:
  assumes "\<forall>h. pid_exists w h (proc s)" "\<forall>h. wait_returns w h (proc s)"
  shows "terminate w config s =
       Inl (Unkillable,
            emit ([Kill (proc s), Wait (proc s), PidExists (proc s) True]
                  @ concat (replicate maxKillNumber (retry (proc s)))
                  @ (if length (EmailServer config) > 0
                     then [Email unkillable_issue unkillable_body] else [])) s)"
proof -
  let ?s1 = "emit [Kill (proc s), Wait (proc s), PidExists (proc s) True] s"
  have "terminate w config s = kill_loop w config 0 True ?s1"
    using assms by (simp add: terminate_def probe_def Let_def emit_emit)
  also have "\<dots> = Inl (Unkillable,
            emit (concat (replicate maxKillNumber (retry (proc ?s1)))
                  @ (if length (EmailServer config) > 0
                     then [Email unkillable_issue unkillable_body] else [])) ?s1)"
    using assms by (intro kill_loop_stubborn) simp_all
  finally show ?thesis by (simp add: emit_emit)
qed

lemma retries_retry: "retries (concat (replicate n (retry p))) = n"
  by (induction n) (simp_all add: retry_def)

subsection \<open>One iteration of the loop\<close>

lemma since_prefix:
  "trace s1 = trace s @ es \<Longrightarrow> trace (final r) = trace s1 @ new \<Longrightarrow> since s r = es @ since s1 r"
  by (simp add: since_def)

lemma final_simps [simp]: "final (Inr s) = s" "final (Inl (e, s)) = s"
  by (simp_all add: final_def)

lemma openProcess_grows:
  "\<exists>r. trace (final (openProcess w path args s)) = trace s @ [StartProcess path args r]"
  by (cases "start_process w (trace s) path args") (simp_all add: openProcess_def)

lemma switch_algo_grows: "\<exists>new. trace (final (switch_algo w config a s)) = trace s @ new"
proof (cases "terminate w config s")
  case (Inl x)
  obtain err s' where x: "x = (err, s')" by (cases x)
  from terminate_Inl[OF Inl[unfolded x]] obtain new where "s' = emit new s" by blast
  with Inl x show ?thesis by (simp add: switch_algo_def)
next
  case (Inr s2)
  from terminate_Inr[OF Inr] obtain pre where pre: "s2 = emit (pre @ [PidExists (proc s) False]) s"
    by blast
  show ?thesis
  proof (cases "changeAlgoGetParams w config a s2")
    case (Inl x)
    obtain err s3 where x: "x = (err, s3)" by (cases x)
    from changeAlgoGetParams_frame[of w config a s2 err s3] Inl x obtain mid where
      "trace s3 = trace s2 @ mid" by blast
    with \<open>terminate w config s = Inr s2\<close> Inl x pre show ?thesis
      by (simp add: switch_algo_def)
  next
    case (Inr y)
    obtain ps fp s3 where y: "y = ((ps, fp), s3)" by (cases y) auto
    from changeAlgoGetParams_frame[of w config a s2 _ s3 "(ps, fp)"] Inr y obtain mid where
      mid: "trace s3 = trace s2 @ mid" by blast
    from openProcess_grows[of w fp ps "s3\<lparr>params := ps, filePath := fp\<rparr>"] obtain r where
      "trace (final (openProcess w fp ps (s3\<lparr>params := ps, filePath := fp\<rparr>)))
         = trace s3 @ [StartProcess fp ps r]" by auto
    with \<open>terminate w config s = Inr s2\<close> Inr y pre mid show ?thesis
      by (simp add: switch_algo_def)
  qed
qed

lemma reoptimize_dead_then_start:
  "dead_then_start (proc s) False (since s (reoptimize w config s))"
proof -
  define s1 where "s1 = emit [Optimize] (s\<lparr>secondsSlept := 0\<rparr>)"
  have t1: "trace s1 = trace s @ [Optimize]" and p1: "proc s1 = proc s"
    by (simp_all add: s1_def)
  show ?thesis
  proof (cases "getBestSoftwareAlgo (db_now s1) (minerID s1) (UseEstimates config)")
    case (Inl e)
    then have "reoptimize w config s = Inl (e, s1)"
      by (simp add: reoptimize_def s1_def[symmetric])
    then show ?thesis using t1 by (simp add: since_trace)
  next
    case (Inr a)
    show ?thesis
    proof (cases "MSA_ID a \<noteq> MinerSoftwareAlgoID (thisMiner s1)")
      case False
      with Inr have "reoptimize w config s = Inr s1"
        by (simp add: reoptimize_def s1_def[symmetric])
      then show ?thesis using t1 by (simp add: since_trace)
    next
      case True
      with Inr have r: "reoptimize w config s = switch_algo w config a s1"
        by (simp add: reoptimize_def s1_def[symmetric])
      from switch_algo_grows[of w config a s1] obtain new where
        "trace (final (switch_algo w config a s1)) = trace s1 @ new" ..
      from since_prefix[OF t1 this]
      have "since s (reoptimize w config s) = [Optimize] @ since s1 (switch_algo w config a s1)"
        by (simp add: r)
      then show ?thesis
        using switch_algo_dead_then_start[of s1 w config a] by (simp add: p1)
    qed
  qed
qed

lemma tick_eq:
  "tick w s =
     (if pid_exists w (trace s @ [Sleep 30]) (proc s)
      then Inr (checkIn w (emit [Sleep 30, PidExists (proc s) True]
                  (s\<lparr>secondsSlept := secondsSlept s + 30\<rparr>)))
      else openProcess w (filePath s) (params s)
             (emit [Sleep 30, PidExists (proc s) False, Kill (proc s), Wait (proc s)]
                (s\<lparr>secondsSlept := secondsSlept s + 30\<rparr>)))"
  by (simp add: tick_def probe_def Let_def processCheckTime_def emit_emit)

lemma checkIn_fields [simp]:
  "proc (checkIn w s) = proc s" "params (checkIn w s) = params s"
  "filePath (checkIn w s) = filePath s" "secondsSlept (checkIn w s) = secondsSlept s"
  "minerID (checkIn w s) = minerID s"
  by (simp_all add: checkIn_def Let_def)


lemma checkIn_trace:
  "trace (checkIn w s) = trace s @
     (if default_transaction w then [Begin, Save (thisMiner (checkIn w s)), Commit]
      else [Save (thisMiner (checkIn w s))])"
  by (simp add: checkIn_def Let_def)


lemma tick_dead_then_start: "dead_then_start (proc s) False (since s (tick w s))"
proof (cases "pid_exists w (trace s @ [Sleep 30]) (proc s)")
  case True
  then show ?thesis by (simp add: tick_eq since_def checkIn_trace)
next
  case False
  define s2 where "s2 = emit [Sleep 30, PidExists (proc s) False, Kill (proc s), Wait (proc s)]
                (s\<lparr>secondsSlept := secondsSlept s + 30\<rparr>)"
  from openProcess_grows[of w "filePath s" "params s" s2] obtain r where
    "trace (final (openProcess w (filePath s) (params s) s2))
       = trace s2 @ [StartProcess (filePath s) (params s) r]" ..
  with False have "since s (tick w s) = [Sleep 30, PidExists (proc s) False, Kill (proc s),
      Wait (proc s), StartProcess (filePath s) (params s) r]"
    by (simp add: tick_eq since_def s2_def)
  then show ?thesis by simp
qed

subsection \<open>The selector\<close>

lemma orderLogic_spec_score: "orderLogic u r = spec_score u r"
  by (simp add: orderLogic_def spec_score_def)

lemma limit1_maximal:
  assumes "rows \<noteq> []"
  shows "\<exists>r. order_desc_limit1 e rows = [r] \<and> r \<in> set rows \<and> (\<forall>x \<in> set rows. e x \<le> e r)"
proof -
  define ys where "ys = sort_key (\<lambda>r. - e r) rows"
  have len: "length ys = length rows" by (simp add: ys_def)
  with assms obtain y ys' where ys: "ys = y # ys'" by (cases ys) auto
  have st: "set ys = set rows" by (simp add: ys_def)
  have "sorted (map (\<lambda>r. - e r) ys)" by (simp add: ys_def)
  with ys have "\<forall>z \<in> set ys'. e z \<le> e y" by auto
  with ys st have "\<forall>x \<in> set rows. e x \<le> e y" by auto
  moreover have "y \<in> set rows" using ys st by auto
  moreover have "order_desc_limit1 e rows = [y]"
    using ys by (simp add: order_desc_limit1_def ys_def[symmetric])
  ultimately show ?thesis by blast
qed

lemma joined_eligible:
  "r \<in> set (joined db mid) \<Longrightarrow>
     (DoNotUse (row_algo r) = None \<or> DoNotUse (row_algo r) = Some False)
     \<and> row_algo r \<in> set (miner_software_algos db)"
  by (auto simp: joined_def split: if_splits)

lemma order_desc_limit1_subset: "set (order_desc_limit1 e rows) \<subseteq> set rows"
  by (auto simp: order_desc_limit1_def dest: in_set_takeD)

lemma best_from_row:
  assumes "bestMinerSoftwareAlgo db mid u \<noteq> zero_MinerSoftwareAlgos"
  shows "bestMinerSoftwareAlgo db mid u \<in> row_algo ` set (joined db mid)"
proof -
  let ?top = "order_desc_limit1 (orderLogic u) (joined db mid)"
  from assms have nf: "\<not> query_fails (joined db mid)"
    by (auto simp: bestMinerSoftwareAlgo_def Let_def)
  with assms obtain r rs where t: "?top = r # rs"
    by (cases ?top) (auto simp: bestMinerSoftwareAlgo_def Let_def Find_def)
  with nf have "bestMinerSoftwareAlgo db mid u = row_algo r"
    by (simp add: bestMinerSoftwareAlgo_def Let_def Find_def)
  moreover from t order_desc_limit1_subset[of "orderLogic u" "joined db mid"]
  have "r \<in> set (joined db mid)" by auto
  ultimately show ?thesis by blast
qed

text \<open>
  Scores are those of the specification's formula for the mode, which equals the
  expression the query orders by. When the eligible join is not empty and every score
  is defined (no row has a zero pool factor), some row of the join has the maximal
  score, and the selector returns that row's combination unless that combination is the
  all-zero record. Whatever the selector returns is the combination of a row of the
  join, is a row of the combination table, and is not marked \<open>do_not_use\<close>.
\<close>

lemma selector_maximal_unless_zero_record:
  "orderLogic u y = spec_score u y
   \<and> (joined db mid \<noteq> [] \<and> \<not> query_fails (joined db mid) \<longrightarrow>
      (\<exists>r \<in> set (joined db mid).
          (\<forall>x \<in> set (joined db mid). spec_score u x \<le> spec_score u r)
        \<and> getBestSoftwareAlgo db mid u =
            (if row_algo r = zero_MinerSoftwareAlgos then Inl NoViableOptimization
             else Inr (row_algo r))))
   \<and> (\<forall>c. getBestSoftwareAlgo db mid u = Inr c \<longrightarrow>
          c \<in> row_algo ` set (joined db mid) \<and> c \<in> set (miner_software_algos db)
          \<and> (DoNotUse c = None \<or> DoNotUse c = Some False))"
proof (intro conjI impI allI)
  show "orderLogic u y = spec_score u y" by (rule orderLogic_spec_score)
next
  assume h: "joined db mid \<noteq> [] \<and> \<not> query_fails (joined db mid)"
  then obtain r where r: "order_desc_limit1 (orderLogic u) (joined db mid) = [r]"
    "r \<in> set (joined db mid)" "\<forall>x \<in> set (joined db mid). orderLogic u x \<le> orderLogic u r"
    using limit1_maximal[of "joined db mid" "orderLogic u"] by blast
  from h r(1) have "bestMinerSoftwareAlgo db mid u = row_algo r"
    by (simp add: bestMinerSoftwareAlgo_def Let_def Find_def)
  then have "getBestSoftwareAlgo db mid u =
            (if row_algo r = zero_MinerSoftwareAlgos then Inl NoViableOptimization
             else Inr (row_algo r))"
    by (auto simp: getBestSoftwareAlgo_def Let_def)
  with r(2,3) show "\<exists>r \<in> set (joined db mid).
          (\<forall>x \<in> set (joined db mid). spec_score u x \<le> spec_score u r)
        \<and> getBestSoftwareAlgo db mid u =
            (if row_algo r = zero_MinerSoftwareAlgos then Inl NoViableOptimization
             else Inr (row_algo r))"
    by (auto simp: orderLogic_spec_score)
next
  fix c assume c: "getBestSoftwareAlgo db mid u = Inr c"
  then have "bestMinerSoftwareAlgo db mid u = c" "c \<noteq> zero_MinerSoftwareAlgos"
    by (auto simp: getBestSoftwareAlgo_def Let_def split: if_splits)
  with best_from_row[of db mid u] have "c \<in> row_algo ` set (joined db mid)" by simp
  then show "c \<in> row_algo ` set (joined db mid)" .
  then obtain r where "r \<in> set (joined db mid)" "c = row_algo r" by auto
  with joined_eligible[of r db mid]
  show "c \<in> set (miner_software_algos db)" "DoNotUse c = None \<or> DoNotUse c = Some False"
    by auto
qed

lemma joined_no_samples:
  "\<forall>s \<in> set (miner_stats db). stat_miner_id s \<noteq> mid \<Longrightarrow> joined db mid = []"
  by (simp add: joined_def subLatestStat_def filter_empty_conv)

lemma joined_all_ineligible:
  assumes "\<forall>c \<in> set (miner_software_algos db). DoNotUse c = Some True"
  shows "joined db mid = []"
proof (cases "joined db mid")
  case Nil
  then show ?thesis .
next
  case (Cons r rs)
  then have "r \<in> set (joined db mid)" by simp
  from joined_eligible[OF this] assms show ?thesis by auto
qed

lemma getBest_no_rows: "joined db mid = [] \<Longrightarrow> getBestSoftwareAlgo db mid u = Inl NoViableOptimization"
  by (simp add: getBestSoftwareAlgo_def bestMinerSoftwareAlgo_def Let_def query_fails_def
        order_desc_limit1_def Find_def)

lemma reoptimize_no_rows:
  "joined (db_now s) (minerID s) = [] \<Longrightarrow>
     reoptimize w config s = Inl (NoViableOptimization, emit [Optimize] (s\<lparr>secondsSlept := 0\<rparr>))"
  by (simp add: reoptimize_def getBest_no_rows)

subsection \<open>The fatal ends of the builder and of the startup\<close>

lemma changeAlgoGetParams_Inl:
  "changeAlgoGetParams w config a s = Inl (e, s') \<Longrightarrow>
     e = BadSoftwareOrAlgoLink \<and> (find_software (db_now s) a = zero_MinerSoftware
                                  \<or> find_algorithm (db_now s) a = zero_Algorithm)
     \<or> e = NoFilePath \<and> find_software (db_now s) a \<noteq> zero_MinerSoftware
           \<and> find_algorithm (db_now s) a \<noteq> zero_Algorithm
           \<and> find_details (db_now s) (thisMiner s) (find_software (db_now s) a)
               = zero_MinerMinerSoftware
     \<or> e = CommitFailed \<and> find_software (db_now s) a \<noteq> zero_MinerSoftware
           \<and> find_algorithm (db_now s) a \<noteq> zero_Algorithm
           \<and> find_details (db_now s) (thisMiner s) (find_software (db_now s) a)
               \<noteq> zero_MinerMinerSoftware"
  by (auto simp: changeAlgoGetParams_def Let_def split: if_splits)

lemma changeAlgoGetParams_bad_link:
  "find_software (db_now s) a = zero_MinerSoftware \<or> find_algorithm (db_now s) a = zero_Algorithm
     \<Longrightarrow> changeAlgoGetParams w config a s = Inl (BadSoftwareOrAlgoLink, emit [Begin] s)"
  by (auto simp: changeAlgoGetParams_def Let_def)

lemma changeAlgoGetParams_no_path:
  "find_software (db_now s) a \<noteq> zero_MinerSoftware \<Longrightarrow>
   find_algorithm (db_now s) a \<noteq> zero_Algorithm \<Longrightarrow>
   find_details (db_now s) (thisMiner s) (find_software (db_now s) a) = zero_MinerMinerSoftware
     \<Longrightarrow> changeAlgoGetParams w config a s = Inl (NoFilePath, emit [Begin] s)"
  by (auto simp: changeAlgoGetParams_def Let_def)

lemma getBest_Inl:
  "getBestSoftwareAlgo db mid u = Inl e \<Longrightarrow>
     e = NoViableOptimization \<and> bestMinerSoftwareAlgo db mid u = zero_MinerSoftwareAlgos"
  by (auto simp: getBestSoftwareAlgo_def Let_def split: if_splits)

lemma startup_not_found:
  "(\<exists>s'. startup w config db0 = Inl (MinerNotFound, s')) \<longleftrightarrow>
     find_miner (fst (VerifyMiner w db0 (MinerName config)))
                (snd (VerifyMiner w db0 (MinerName config))) = zero_Miner"
proof -
  obtain tx m where v: "VerifyMiner w db0 (MinerName config) = (tx, m)"
    by (cases "VerifyMiner w db0 (MinerName config)")
  show ?thesis
  proof (cases "find_miner tx m = zero_Miner")
    case True
    with v show ?thesis by (simp add: startup_def Let_def)
  next
    case False
    have "startup w config db0 \<noteq> Inl (MinerNotFound, s')" for s'
      using v False
      by (auto simp: startup_def Let_def split: if_splits sum.splits prod.splits
            dest!: getBest_Inl changeAlgoGetParams_Inl openProcess_cases(2))
    with v False show ?thesis by simp
  qed
qed

subsection \<open>The argument list\<close>

lemma Split_Cons: "\<exists>p ps. Split x c = p # ps"
  by (induction x) (auto split: list.splits)

lemma Join_Split: "Join (Split x c) c = x"
proof (induction x)
  case Nil
  show ?case by simp
next
  case (Cons a x)
  obtain p ps where s: "Split x c = p # ps" using Split_Cons by blast
  with Cons show ?case by (cases ps) (auto)
qed

lemma Split_pieces: "p \<in> set (Split x c) \<Longrightarrow> c \<notin> set p"
proof (induction x arbitrary: p)
  case Nil
  then show ?case by simp
next
  case (Cons a x)
  obtain q qs where s: "Split x c = q # qs" using Split_Cons by blast
  with Cons show ?case by (auto split: if_splits)
qed

lemma length_Split: "length (Split x c) = Suc (count_list x c)"
proof (induction x)
  case Nil
  show ?case by simp
next
  case (Cons a x)
  obtain q qs where s: "Split x c = q # qs" using Split_Cons by blast
  with Cons show ?case by auto
qed

lemma changeAlgoGetParams_Inr:
  assumes "changeAlgoGetParams w config a s = Inr ((ps, fp), s')"
  shows "(ps = [] \<and> fp = [] \<and> db_now s' = db_now s
            \<and> s' = emit [Begin, Rollback] (s\<lparr>thisMiner := reread_miner (db_now s) (thisMiner s)\<rparr>))
       \<or> (ps = build_params config (find_software (db_now s) a) a
                  (GeneratePoolURL w (db_now s') (MSA_AlgorithmID a))
            \<and> fp = FilePath (find_details (db_now s) (thisMiner s) (find_software (db_now s) a))
            \<and> thisMiner s' = saved_record w ((reread_miner (db_now s) (thisMiner s))
                 \<lparr>MinerSoftwareAlgoID := MSA_ID a, OfflineNoticeSent := False\<rparr>) (miners (db_now s))
            \<and> db_now s' = (db_now s)\<lparr>miners := save_miner w ((reread_miner (db_now s) (thisMiner s))
                 \<lparr>MinerSoftwareAlgoID := MSA_ID a, OfflineNoticeSent := False\<rparr>) (miners (db_now s))\<rparr>
            \<and> (\<exists>mail. trace s' = trace s @ [Begin] @ mail @ [Save (thisMiner s'), Commit]
                   \<and> list_all (\<lambda>e. \<exists>x y. e = Email x y) mail))"
  using assms
  by (auto simp: changeAlgoGetParams_def Let_def emit_def split: if_splits)

subsection \<open>What a save does to the device table\<close>






subsection \<open>The builder and the store\<close>



subsection \<open>The states of a run\<close>

lemma last_start_snoc [simp]:
  "last_start (es @ [StartProcess path args (Some pid)]) = Some (path, args)"
  by (simp add: last_start_def)

lemma last_start_no_start: "no_start new \<Longrightarrow> last_start (es @ new) = last_start es"
proof -
  assume "no_start new"
  then have "filter (\<lambda>e. case e of StartProcess path args (Some pid) \<Rightarrow> True | _ \<Rightarrow> False) new = []"
    by (induction new) (auto simp: is_start_def split: event.splits)
  then show ?thesis
    by (simp add: last_start_def rev_filter[symmetric])
qed

lemma switch_algo_secondsSlept:
  "secondsSlept (final (switch_algo w config a s)) = secondsSlept s"
proof (cases "terminate w config s")
  case (Inl x)
  obtain err s' where x: "x = (err, s')" by (cases x)
  from terminate_Inl[OF Inl[unfolded x]] obtain new where "s' = emit new s" by blast
  with Inl x show ?thesis by (simp add: switch_algo_def)
next
  case (Inr s2)
  from terminate_Inr[OF Inr] obtain pre where pre: "s2 = emit (pre @ [PidExists (proc s) False]) s"
    by blast
  show ?thesis
  proof (cases "changeAlgoGetParams w config a s2")
    case (Inl x)
    obtain err s3 where x: "x = (err, s3)" by (cases x)
    from changeAlgoGetParams_frame[of w config a s2 err s3] Inl x
    have "secondsSlept s3 = secondsSlept s2" by blast
    with \<open>terminate w config s = Inr s2\<close> Inl x pre show ?thesis
      by (simp add: switch_algo_def)
  next
    case (Inr y)
    obtain ps fp s3 where y: "y = ((ps, fp), s3)" by (cases y) auto
    from changeAlgoGetParams_frame[of w config a s2 _ s3 "(ps, fp)"] Inr y
    have "secondsSlept s3 = secondsSlept s2" by blast
    with \<open>terminate w config s = Inr s2\<close> Inr y pre show ?thesis
      by (cases "start_process w (trace (s3\<lparr>params := ps, filePath := fp\<rparr>)) fp ps")
         (simp_all add: switch_algo_def openProcess_def)
  qed
qed

lemma reoptimize_secondsSlept: "secondsSlept (final (reoptimize w config s)) = 0"
proof -
  define s1 where "s1 = emit [Optimize] (s\<lparr>secondsSlept := 0\<rparr>)"
  have z: "secondsSlept s1 = 0" by (simp add: s1_def)
  show ?thesis
  proof (cases "getBestSoftwareAlgo (db_now s1) (minerID s1) (UseEstimates config)")
    case (Inl e)
    then show ?thesis by (simp add: reoptimize_def s1_def[symmetric] z)
  next
    case (Inr a)
    then show ?thesis
      using switch_algo_secondsSlept[of w config a s1]
      by (simp add: reoptimize_def s1_def[symmetric] z)
  qed
qed

lemma reoptimize_inv:
  assumes "run_inv s" "reoptimize w config s = Inr s'"
  shows "run_inv s'"
proof -
  define s1 where "s1 = emit [Optimize] (s\<lparr>secondsSlept := 0\<rparr>)"
  have i1: "run_inv s1"
    using assms(1) by (simp add: run_inv_def s1_def last_start_no_start)
  from reoptimize_secondsSlept[of w config s] assms(2) have z: "secondsSlept s' = 0" by simp
  from assms(2) obtain a where
    a: "getBestSoftwareAlgo (db_now s1) (minerID s1) (UseEstimates config) = Inr a"
    by (cases "getBestSoftwareAlgo (db_now s1) (minerID s1) (UseEstimates config)")
       (simp_all add: reoptimize_def s1_def[symmetric])
  show ?thesis
  proof (cases "MSA_ID a \<noteq> MinerSoftwareAlgoID (thisMiner s1)")
    case False
    with a assms(2) have "s' = s1" by (simp add: reoptimize_def s1_def[symmetric])
    with i1 show ?thesis by simp
  next
    case True
    with a assms(2) have "switch_algo w config a s1 = Inr s'"
      by (simp add: reoptimize_def s1_def[symmetric])
    from switch_algo_Inr[OF this] obtain pre mid path args pid where
      t: "trace s' = (trace s1 @ pre @ [PidExists (proc s1) False] @ mid)
                       @ [StartProcess path args (Some pid)]"
      and p: "params s' = args" "filePath s' = path"
      by auto
    from t have "last_start (trace s') = Some (path, args)"
      by (simp only: last_start_snoc)
    with p z show ?thesis by (simp add: run_inv_def)
  qed
qed

lemma tick_inv:
  assumes "run_inv s" "tick w s = Inr s'"
  shows "run_inv s'"
proof (cases "pid_exists w (trace s @ [Sleep 30]) (proc s)")
  case True
  with assms(2) have "s' = checkIn w (emit [Sleep 30, PidExists (proc s) True]
                  (s\<lparr>secondsSlept := secondsSlept s + 30\<rparr>))"
    by (simp add: tick_eq)
  with assms(1) show ?thesis
    by (simp add: run_inv_def checkIn_trace last_start_no_start)
next
  case False
  with assms(2) obtain pid where
    "s' = emit [StartProcess (filePath s) (params s) (Some pid)]
            ((emit [Sleep 30, PidExists (proc s) False, Kill (proc s), Wait (proc s)]
                (s\<lparr>secondsSlept := secondsSlept s + 30\<rparr>))\<lparr>proc := pid\<rparr>)"
    by (auto simp: tick_eq dest!: openProcess_cases(1))
  with assms(1) show ?thesis
    by (simp add: run_inv_def emit_def flip: append_assoc)
qed

lemma loop_step_inv: "run_inv s \<Longrightarrow> loop_step w config s = Inr s' \<Longrightarrow> run_inv s'"
  by (auto simp: loop_step_def split: if_splits intro: reoptimize_inv tick_inv)

lemma iterate_inv: "run_inv s \<Longrightarrow> iterate n w config s = Inr s' \<Longrightarrow> run_inv s'"
proof (induction n arbitrary: s)
  case 0
  then show ?case by simp
next
  case (Suc n)
  then show ?case
    by (cases "loop_step w config s") (auto dest: loop_step_inv)
qed

lemma startup_inv:
  assumes "startup w config db0 = Inr s"
  shows "run_inv s"
proof -
  obtain tx m where v: "VerifyMiner w db0 (MinerName config) = (tx, m)"
    by (cases "VerifyMiner w db0 (MinerName config)")
  define s1 where "s1 = emit [Commit, Optimize]
     \<lparr>db_now = tx, minerID = m, thisMiner = find_miner tx m, proc = 0, params = [],
       filePath = [], secondsSlept = 0, trace = [Begin]\<rparr>"
  have z: "secondsSlept s1 = 0" by (simp add: s1_def)
  from assms v obtain a ps fp s2 where
    c: "changeAlgoGetParams w config a s1 = Inr ((ps, fp), s2)"
    and o: "openProcess w fp ps (s2\<lparr>params := ps, filePath := fp\<rparr>) = Inr s"
    by (auto simp: startup_def Let_def s1_def[symmetric] split: if_splits sum.splits)
  from changeAlgoGetParams_frame[of w config a s1 _ s2 "(ps, fp)"] c
  have "secondsSlept s2 = 0" using z by auto
  with openProcess_cases(1)[OF o] show ?thesis
    by (auto simp: run_inv_def)
qed

subsection \<open>The schedule\<close>

lemma smod_zero_iff_dvd:
  fixes c p :: int
  assumes "c \<noteq> 0"
  shows "c smod p = 0 \<longleftrightarrow> p dvd c"
proof -
  have "c smod p = 0 \<longleftrightarrow> \<bar>c\<bar> mod \<bar>p\<bar> = 0"
    using assms by (simp add: smod_int_alt_def sgn_if)
  also have "\<dots> \<longleftrightarrow> \<bar>p\<bar> dvd \<bar>c\<bar>" by (simp add: dvd_eq_mod_eq_0)
  also have "\<dots> \<longleftrightarrow> p dvd c" by simp
  finally show ?thesis .
qed

lemma loop_step_zero_period:
  "OptimizationCheckTime config = 0 \<Longrightarrow> secondsSlept s > 0 \<Longrightarrow>
     loop_step w config s = Inl (DivideByZero, emit [Kill (proc s), Rollback] s)"
  by (simp add: loop_step_def)

lemma loop_step_branch:
  assumes "0 \<le> secondsSlept s" "OptimizationCheckTime config \<noteq> 0"
  shows "loop_step w config s =
           (if secondsSlept s \<noteq> 0 \<and> OptimizationCheckTime config dvd secondsSlept s
            then reoptimize w config s else tick w s)"
proof (cases "secondsSlept s = 0")
  case True
  then show ?thesis by (simp add: loop_step_def)
next
  case False
  with assms(1) have "secondsSlept s > 0" by simp
  with False assms(2) show ?thesis
    by (simp add: loop_step_def smod_zero_iff_dvd)
qed

lemma reoptimize_grows:
  "\<exists>new. trace (final (reoptimize w config s)) = trace s @ Optimize # new"
proof -
  define s1 where "s1 = emit [Optimize] (s\<lparr>secondsSlept := 0\<rparr>)"
  have t1: "trace s1 = trace s @ [Optimize]" by (simp add: s1_def)
  show ?thesis
  proof (cases "getBestSoftwareAlgo (db_now s1) (minerID s1) (UseEstimates config)")
    case (Inl e)
    then show ?thesis by (simp add: reoptimize_def s1_def[symmetric] t1)
  next
    case (Inr a)
    from switch_algo_grows[of w config a s1] obtain new where
      "trace (final (switch_algo w config a s1)) = trace s1 @ new" ..
    with Inr show ?thesis
      by (simp add: reoptimize_def s1_def[symmetric] t1)
  qed
qed

lemma reoptimize_runs_selector: "Optimize \<in> set (since s (reoptimize w config s))"
proof -
  from reoptimize_grows[of w config s] obtain new where
    "trace (final (reoptimize w config s)) = trace s @ Optimize # new" ..
  then show ?thesis by (simp add: since_def)
qed

lemma tick_no_selector: "Optimize \<notin> set (since s (tick w s))"
proof (cases "pid_exists w (trace s @ [Sleep 30]) (proc s)")
  case True
  then show ?thesis by (simp add: tick_eq since_def checkIn_trace)
next
  case False
  define s2 where "s2 = emit [Sleep 30, PidExists (proc s) False, Kill (proc s), Wait (proc s)]
                (s\<lparr>secondsSlept := secondsSlept s + 30\<rparr>)"
  from openProcess_grows[of w "filePath s" "params s" s2] obtain r where
    "trace (final (openProcess w (filePath s) (params s) s2))
       = trace s2 @ [StartProcess (filePath s) (params s) r]" ..
  with False show ?thesis
    by (simp add: tick_eq since_def s2_def)
qed

lemma iterate_Suc_end:
  "iterate n w config s = Inr s' \<Longrightarrow> iterate (Suc n) w config s = loop_step w config s'"
proof (induction n arbitrary: s)
  case 0
  then show ?case by (simp split: sum.splits)
next
  case (Suc n)
  from Suc.prems obtain s1 where l: "loop_step w config s = Inr s1"
    and i: "iterate n w config s1 = Inr s'"
    by (cases "loop_step w config s") auto
  from Suc.IH[OF i] l show ?case by simp
qed

lemma heartbeats_simps [simp]:
  "heartbeats [] = 0" "heartbeats (xs @ ys) = heartbeats xs + heartbeats ys"
  "heartbeats (Save m # es) = Suc (heartbeats es)"
  "heartbeats (Sleep k # es) = heartbeats es"
  "heartbeats (PidExists p b # es) = heartbeats es"
  "heartbeats (Begin # es) = heartbeats es"
  "heartbeats (Commit # es) = heartbeats es"
  by (simp_all add: heartbeats_def is_save_def)

lemma alive_ticks:
  assumes alive: "\<forall>h p. pid_exists w h p" and period: "OptimizationCheckTime config = 600"
  shows "n + k \<le> 20 \<Longrightarrow> secondsSlept s = 30 * int k \<Longrightarrow>
     \<exists>sn new. iterate n w config s = Inr sn \<and> secondsSlept sn = 30 * int (n + k)
        \<and> trace sn = trace s @ new \<and> heartbeats new = n \<and> Optimize \<notin> set new"
proof (induction n arbitrary: k s)
  case 0
  then show ?case by simp
next
  case (Suc n)
  define s1 where "s1 = checkIn w (emit [Sleep 30, PidExists (proc s) True]
                  (s\<lparr>secondsSlept := secondsSlept s + 30\<rparr>))"
  define hb where "hb = (if default_transaction w then [Begin, Save (thisMiner s1), Commit]
                         else [Save (thisMiner s1)])"
  from Suc.prems have k: "k < 20" by simp
  then have "\<not> (secondsSlept s > 0 \<and> secondsSlept s smod 600 = 0)"
    using Suc.prems(2) by (cases "k = 0") (simp_all add: smod_int_alt_def)
  then have "loop_step w config s = tick w s"
    by (auto simp: loop_step_def period)
  with alive have l: "loop_step w config s = Inr s1"
    by (simp add: tick_eq s1_def)
  have t1: "trace s1 = trace s @ [Sleep 30, PidExists (proc s) True] @ hb"
    by (simp add: s1_def hb_def checkIn_trace)
  have hb: "heartbeats hb = 1" "Optimize \<notin> set hb"
    by (simp_all add: hb_def)
  have "secondsSlept s1 = 30 * int (Suc k)"
    using Suc.prems(2) by (simp add: s1_def)
  moreover from Suc.prems have "n + Suc k \<le> 20" by simp
  ultimately obtain sn new where
    sn: "iterate n w config s1 = Inr sn" "secondsSlept sn = 30 * int (n + Suc k)"
        "trace sn = trace s1 @ new" "heartbeats new = n" "Optimize \<notin> set new"
    using Suc.IH[of "Suc k" s1] by blast
  let ?new = "[Sleep 30, PidExists (proc s) True] @ hb @ new"
  have "iterate (Suc n) w config s = Inr sn" using l sn(1) by simp
  moreover have "secondsSlept sn = 30 * int (Suc n + k)" using sn(2) by simp
  moreover have "trace sn = trace s @ ?new" using sn(3) t1 by simp
  moreover have "heartbeats ?new = Suc n" using sn(4) hb by simp
  moreover have "Optimize \<notin> set ?new" using sn(5) hb by simp
  ultimately show ?case by blast
qed

text \<open>
  In every state that a run has reached with a non-zero period, the counter of slept
  seconds is not negative, and the iteration re-optimizes exactly when the counter is
  not zero and a multiple of the period: then the selector is run and the counter is
  zero afterwards. Every other iteration is a tick, which does not run the selector.
  With a period of 600 seconds, starting from a zero counter with every probe finding
  the process alive, each of the first 20 iterations is such a tick with one heartbeat,
  and the iteration that follows the 20th tick is the first re-optimization.
\<close>

lemma schedule_nonzero_period:
  "(startup w config db0 = Inr s0 \<and> iterate n w config s0 = Inr s
      \<and> OptimizationCheckTime config \<noteq> 0 \<longrightarrow>
       0 \<le> secondsSlept s
       \<and> loop_step w config s =
           (if secondsSlept s \<noteq> 0 \<and> OptimizationCheckTime config dvd secondsSlept s
            then reoptimize w config s else tick w s))
   \<and> secondsSlept (final (reoptimize w config s)) = 0
   \<and> Optimize \<in> set (since s (reoptimize w config s))
   \<and> Optimize \<notin> set (since s (tick w s))
   \<and> tick w s =
       (if pid_exists w (trace s @ [Sleep 30]) (proc s)
        then Inr (checkIn w (emit [Sleep 30, PidExists (proc s) True]
                    (s\<lparr>secondsSlept := secondsSlept s + 30\<rparr>)))
        else openProcess w (filePath s) (params s)
               (emit [Sleep 30, PidExists (proc s) False, Kill (proc s), Wait (proc s)]
                  (s\<lparr>secondsSlept := secondsSlept s + 30\<rparr>)))
   \<and> (OptimizationCheckTime config = 600 \<and> secondsSlept s = 0 \<and> (\<forall>h p. pid_exists w h p) \<longrightarrow>
        (\<forall>k \<le> 20. \<exists>sk. iterate k w config s = Inr sk \<and> secondsSlept sk = 30 * int k
             \<and> heartbeats (since s (Inr sk)) = k \<and> Optimize \<notin> set (since s (Inr sk)))
        \<and> (\<exists>s20. iterate 20 w config s = Inr s20 \<and> secondsSlept s20 = 600
               \<and> iterate 21 w config s = reoptimize w config s20))"
proof (intro conjI impI allI)
  assume h: "startup w config db0 = Inr s0 \<and> iterate n w config s0 = Inr s
      \<and> OptimizationCheckTime config \<noteq> 0"
  then have "run_inv s" using startup_inv iterate_inv by blast
  then show z: "0 \<le> secondsSlept s" by (simp add: run_inv_def)
  from loop_step_branch[OF z] h
  show "loop_step w config s =
           (if secondsSlept s \<noteq> 0 \<and> OptimizationCheckTime config dvd secondsSlept s
            then reoptimize w config s else tick w s)"
    by blast
next
  show "secondsSlept (final (reoptimize w config s)) = 0" by (rule reoptimize_secondsSlept)
  show "Optimize \<in> set (since s (reoptimize w config s))" by (rule reoptimize_runs_selector)
  show "Optimize \<notin> set (since s (tick w s))" by (rule tick_no_selector)
  show "tick w s =
       (if pid_exists w (trace s @ [Sleep 30]) (proc s)
        then Inr (checkIn w (emit [Sleep 30, PidExists (proc s) True]
                    (s\<lparr>secondsSlept := secondsSlept s + 30\<rparr>)))
        else openProcess w (filePath s) (params s)
               (emit [Sleep 30, PidExists (proc s) False, Kill (proc s), Wait (proc s)]
                  (s\<lparr>secondsSlept := secondsSlept s + 30\<rparr>)))"
    by (rule tick_eq)
next
  fix k :: nat
  assume h: "OptimizationCheckTime config = 600 \<and> secondsSlept s = 0 \<and> (\<forall>h p. pid_exists w h p)"
    and k: "k \<le> 20"
  from alive_ticks[of w config k 0 s] h k obtain sk new where
    "iterate k w config s = Inr sk" "secondsSlept sk = 30 * int k"
    "trace sk = trace s @ new" "heartbeats new = k" "Optimize \<notin> set new"
    by auto
  then show "\<exists>sk. iterate k w config s = Inr sk \<and> secondsSlept sk = 30 * int k
             \<and> heartbeats (since s (Inr sk)) = k \<and> Optimize \<notin> set (since s (Inr sk))"
    by (auto simp: since_trace)
next
  assume h: "OptimizationCheckTime config = 600 \<and> secondsSlept s = 0 \<and> (\<forall>h p. pid_exists w h p)"
  from alive_ticks[of w config 20 0 s] h obtain s20 where
    s20: "iterate 20 w config s = Inr s20" "secondsSlept s20 = 600"
    by auto
  have "iterate (Suc 20) w config s = loop_step w config s20"
    using s20(1) by (rule iterate_Suc_end)
  also have "\<dots> = reoptimize w config s20"
    using s20(2) h by (simp add: loop_step_def smod_int_alt_def)
  finally have "iterate 21 w config s = reoptimize w config s20" by simp
  with s20 show "\<exists>s20. iterate 20 w config s = Inr s20 \<and> secondsSlept s20 = 600
               \<and> iterate 21 w config s = reoptimize w config s20"
    by blast
qed

section \<open>The claims\<close>


text \<open>
  C2. When the join yields no eligible row the selector fails with
  \<open>NoViableOptimization\<close>; this is the case when the device has no throughput sample
  and when every combination is marked \<open>do_not_use\<close>. The failure ends the program:
  the re-optimization step of the loop ends with it right after the selector's query, no
  later iteration runs, and at startup the program ends with it before any process is
  started.
\<close>

theorem no_eligible_row_is_fatal:
  "(joined db mid = [] \<longrightarrow> getBestSoftwareAlgo db mid u = Inl NoViableOptimization)
   \<and> ((\<forall>x \<in> set (miner_stats db). stat_miner_id x \<noteq> mid) \<longrightarrow> joined db mid = [])
   \<and> ((\<forall>c \<in> set (miner_software_algos db). DoNotUse c = Some True) \<longrightarrow> joined db mid = [])
   \<and> (joined (db_now s) (minerID s) = [] \<longrightarrow>
         reoptimize w config s
           = Inl (NoViableOptimization, emit [Optimize] (s\<lparr>secondsSlept := 0\<rparr>)))
   \<and> (joined (db_now s) (minerID s) = [] \<and> secondsSlept s > 0
        \<and> OptimizationCheckTime config \<noteq> 0
        \<and> secondsSlept s smod OptimizationCheckTime config = 0 \<longrightarrow>
         (\<forall>n. iterate (Suc n) w config s
                = Inl (NoViableOptimization, emit [Optimize] (s\<lparr>secondsSlept := 0\<rparr>))))
   \<and> (VerifyMiner w db0 (MinerName config) = (tx, m) \<and> joined tx m = []
        \<and> find_miner tx m \<noteq> zero_Miner
        \<and> commit_ok w [Begin] \<longrightarrow>
         startup w config db0
           = Inl (NoViableOptimization,
                  \<lparr>db_now = tx, minerID = m,
                   thisMiner = find_miner tx m,
                   proc = 0, params = [], filePath = [], secondsSlept = 0,
                   trace = [Begin, Commit, Optimize]\<rparr>))"
proof (intro conjI impI allI)
  assume "joined db mid = []"
  then show "getBestSoftwareAlgo db mid u = Inl NoViableOptimization" by (rule getBest_no_rows)
next
  assume "\<forall>x \<in> set (miner_stats db). stat_miner_id x \<noteq> mid"
  then show "joined db mid = []" by (rule joined_no_samples)
next
  assume "\<forall>c \<in> set (miner_software_algos db). DoNotUse c = Some True"
  then show "joined db mid = []" by (rule joined_all_ineligible)
next
  assume "joined (db_now s) (minerID s) = []"
  then show "reoptimize w config s
           = Inl (NoViableOptimization, emit [Optimize] (s\<lparr>secondsSlept := 0\<rparr>))"
    by (rule reoptimize_no_rows)
next
  fix n
  assume "joined (db_now s) (minerID s) = [] \<and> secondsSlept s > 0
        \<and> OptimizationCheckTime config \<noteq> 0
        \<and> secondsSlept s smod OptimizationCheckTime config = 0"
  then show "iterate (Suc n) w config s
                = Inl (NoViableOptimization, emit [Optimize] (s\<lparr>secondsSlept := 0\<rparr>))"
    by (simp add: loop_step_def reoptimize_no_rows)
next
  assume "VerifyMiner w db0 (MinerName config) = (tx, m) \<and> joined tx m = []
        \<and> find_miner tx m \<noteq> zero_Miner
        \<and> commit_ok w [Begin]"
  then show "startup w config db0
           = Inl (NoViableOptimization,
                  \<lparr>db_now = tx, minerID = m,
                   thisMiner = find_miner tx m,
                   proc = 0, params = [], filePath = [], secondsSlept = 0,
                   trace = [Begin, Commit, Optimize]\<rparr>)"
    by (simp add: startup_def Let_def getBest_no_rows emit_def eq_commute[of zero_Miner])
qed

theorem no_eligible_row_is_fatal_witness:
  "joined no_stats_db 1 = []
   \<and> getBestSoftwareAlgo no_stats_db 1 1 = Inl NoViableOptimization
   \<and> iterate 3 (demo_world (\<lambda>h p. True)) demo_config no_stats_state
       = Inl (NoViableOptimization, emit [Optimize] (no_stats_state\<lparr>secondsSlept := 0\<rparr>))
   \<and> startup (demo_world (\<lambda>h p. True)) demo_config no_stats_db
       = Inl (NoViableOptimization,
              \<lparr>db_now = no_stats_db, minerID = 1, thisMiner = demo_miner,
               proc = 0, params = [], filePath = [], secondsSlept = 0,
               trace = [Begin, Commit, Optimize]\<rparr>)
   \<and> joined (demo_db\<lparr>miner_software_algos :=
                 [combo_A\<lparr>DoNotUse := Some True\<rparr>, combo_B\<lparr>DoNotUse := Some True\<rparr>]\<rparr>) 1 = []"
proof -
  let ?w = "demo_world (\<lambda>h p. True)"
  let ?db2 = "demo_db\<lparr>miner_software_algos :=
                 [combo_A\<lparr>DoNotUse := Some True\<rparr>, combo_B\<lparr>DoNotUse := Some True\<rparr>]\<rparr>"
  note inst = no_eligible_row_is_fatal
    [where db = no_stats_db and mid = 1 and u = 1 and s = no_stats_state and w = ?w
       and config = demo_config and ?db0.0 = no_stats_db and tx = no_stats_db and m = 1]
  note inst2 = no_eligible_row_is_fatal [where db = ?db2 and mid = 1]
  have ns: "\<forall>x \<in> set (miner_stats no_stats_db). stat_miner_id x \<noteq> 1"
    by (simp add: no_stats_db_def)
  with inst have j: "joined no_stats_db 1 = []" by blast
  with inst have g: "getBestSoftwareAlgo no_stats_db 1 1 = Inl NoViableOptimization" by blast
  have st: "db_now no_stats_state = no_stats_db" "minerID no_stats_state = 1"
    "secondsSlept no_stats_state > 0" "OptimizationCheckTime demo_config \<noteq> 0"
    "secondsSlept no_stats_state smod OptimizationCheckTime demo_config = 0"
    by (simp_all add: no_stats_state_def switch_state_def demo_state_def demo_config_def
          smod_int_alt_def)
  from j st(1,2) have j': "joined (db_now no_stats_state) (minerID no_stats_state) = []"
    by simp
  from inst have "joined (db_now no_stats_state) (minerID no_stats_state) = []
        \<and> secondsSlept no_stats_state > 0 \<and> OptimizationCheckTime demo_config \<noteq> 0
        \<and> secondsSlept no_stats_state smod OptimizationCheckTime demo_config = 0 \<longrightarrow>
         (\<forall>n. iterate (Suc n) ?w demo_config no_stats_state
                = Inl (NoViableOptimization, emit [Optimize] (no_stats_state\<lparr>secondsSlept := 0\<rparr>)))"
    by blast
  with j' st(3,4,5) have it: "iterate (Suc 2) ?w demo_config no_stats_state
       = Inl (NoViableOptimization, emit [Optimize] (no_stats_state\<lparr>secondsSlept := 0\<rparr>))"
    by blast
  have su: "VerifyMiner ?w no_stats_db (MinerName demo_config) = (no_stats_db, 1)"
    "find_miner no_stats_db 1 = demo_miner"
    "demo_miner \<noteq> zero_Miner" "commit_ok ?w [Begin]"
    by (simp_all add: demo_world_def no_stats_db_def demo_db_def demo_miner_def Find_def
          find_miner_def zero_Miner_def)
  from inst have "VerifyMiner ?w no_stats_db (MinerName demo_config) = (no_stats_db, 1)
        \<and> joined no_stats_db 1 = []
        \<and> find_miner no_stats_db 1 \<noteq> zero_Miner
        \<and> commit_ok ?w [Begin] \<longrightarrow>
         startup ?w demo_config no_stats_db
           = Inl (NoViableOptimization,
                  \<lparr>db_now = no_stats_db, minerID = 1,
                   thisMiner = find_miner no_stats_db 1,
                   proc = 0, params = [], filePath = [], secondsSlept = 0,
                   trace = [Begin, Commit, Optimize]\<rparr>)"
    by blast
  with su j have s: "startup ?w demo_config no_stats_db
       = Inl (NoViableOptimization,
              \<lparr>db_now = no_stats_db, minerID = 1, thisMiner = demo_miner,
               proc = 0, params = [], filePath = [], secondsSlept = 0,
               trace = [Begin, Commit, Optimize]\<rparr>)"
    by simp
  have "\<forall>c \<in> set (miner_software_algos ?db2). DoNotUse c = Some True"
    by simp
  with inst2 have "joined ?db2 1 = []" by blast
  with j g it s show ?thesis by (simp add: numeral_3_eq_3)
qed

text \<open>
  C3. Against a process that never exits, \<open>terminate\<close> makes one kill and one wait
  and stays in that wait: there is no probe, no retry, no notification and no exit, and
  the iteration of the loop that switches combinations ends in the same way right after
  the selector's query. A wait that does not return in a later round keeps the program in
  that round. The claim has \<open>terminate\<close> make 1000 retries and then end the program with
  the unkillable condition. That is what it does against a process that every probe
  finds alive although every wait on it returns: the first kill, wait and probe, then
  exactly 1000 retries, then the notification and the fatal exit.
\<close>

theorem terminate_blocks_on_process_that_never_exits:
  "terminate never_exits_world demo_config switch_state
     = Inl (Blocked, emit [Kill 42, Wait 42] switch_state)
   \<and> loop_step never_exits_world demo_config switch_state
       = Inl (Blocked, emit [Optimize, Kill 42, Wait 42] (switch_state\<lparr>secondsSlept := 0\<rparr>))
   \<and> retries [Optimize, Kill 42, Wait 42] = 0
   \<and> terminate first_wait_returns_world demo_config switch_state
       = Inl (Blocked, emit [Kill 42, Wait 42, PidExists 42 True, Kill 42, Wait 42] switch_state)
   \<and> (\<exists>s'. terminate (demo_world (\<lambda>h p. True)) demo_config switch_state = Inl (Unkillable, s')
          \<and> since switch_state (Inl (Unkillable, s'))
              = [Kill 42, Wait 42, PidExists 42 True] @ concat (replicate 1000 (retry 42))
                @ [Email unkillable_issue unkillable_body]
          \<and> retries (since switch_state (Inl (Unkillable, s'))) = 1000)"
proof -
  let ?n = never_exits_world
  let ?w = "demo_world (\<lambda>h p. True)"
  have p: "proc switch_state = 42"
    by (simp add: switch_state_def demo_state_def)
  have nw: "\<not> wait_returns ?n h 42" for h
    by (simp add: never_exits_world_def demo_world_def)
  have t: "terminate ?n demo_config switch_state
             = Inl (Blocked, emit [Kill 42, Wait 42] switch_state)"
    using terminate_blocked[of ?n switch_state demo_config] nw by (simp add: p)
  let ?s1 = "emit [Optimize] (switch_state\<lparr>secondsSlept := 0\<rparr>)"
  have best: "getBestSoftwareAlgo (db_now switch_state) (minerID switch_state)
                (UseEstimates demo_config) = Inr combo_A"
    by code_simp
  have neq: "MSA_ID combo_A \<noteq> MinerSoftwareAlgoID (thisMiner switch_state)"
    by code_simp
  have due: "secondsSlept switch_state > 0"
    "OptimizationCheckTime demo_config \<noteq> 0"
    "secondsSlept switch_state smod OptimizationCheckTime demo_config = 0"
    by (simp_all add: switch_state_def demo_state_def demo_config_def smod_int_alt_def)
  have t1: "terminate ?n demo_config ?s1 = Inl (Blocked, emit [Kill 42, Wait 42] ?s1)"
    using terminate_blocked[of ?n ?s1 demo_config] nw by (simp add: p)
  have "loop_step ?n demo_config switch_state = switch_algo ?n demo_config combo_A ?s1"
    using due best neq by (simp add: loop_step_def reoptimize_def)
  also have "\<dots> = Inl (Blocked, emit [Kill 42, Wait 42] ?s1)"
    by (simp add: switch_algo_def t1)
  finally have l: "loop_step ?n demo_config switch_state
       = Inl (Blocked, emit [Optimize, Kill 42, Wait 42] (switch_state\<lparr>secondsSlept := 0\<rparr>))"
    by (simp add: emit_emit)
  have a: "\<forall>h. pid_exists ?w h (proc switch_state)" "\<forall>h. wait_returns ?w h (proc switch_state)"
    by (simp_all add: demo_world_def)
  have e: "length (EmailServer demo_config) > 0"
    by (simp add: demo_config_def)
  from terminate_stubborn[OF a, of demo_config] e
  have u: "terminate ?w demo_config switch_state =
       Inl (Unkillable,
            emit ([Kill 42, Wait 42, PidExists 42 True] @ concat (replicate 1000 (retry 42))
                  @ [Email unkillable_issue unkillable_body]) switch_state)"
    by (simp add: p maxKillNumber_def)
  have r: "retries ([Kill 42, Wait 42, PidExists 42 True] @ concat (replicate 1000 (retry 42))
                  @ [Email unkillable_issue unkillable_body]) = 1000"
    by (simp add: retries_retry)
  have 4: "\<exists>s'. terminate ?w demo_config switch_state = Inl (Unkillable, s')
          \<and> since switch_state (Inl (Unkillable, s'))
              = [Kill 42, Wait 42, PidExists 42 True] @ concat (replicate 1000 (retry 42))
                @ [Email unkillable_issue unkillable_body]
          \<and> retries (since switch_state (Inl (Unkillable, s'))) = 1000"
    unfolding u using r by (simp only: since_emit sum.inject prod.inject simp_thms ex_simps)
  have 3: "retries [Optimize, Kill 42, Wait 42] = 0" by simp
  have 5: "terminate first_wait_returns_world demo_config switch_state
       = Inl (Blocked, emit [Kill 42, Wait 42, PidExists 42 True, Kill 42, Wait 42] switch_state)"
  proof -
    have tr: "Wait 42 \<notin> set (trace switch_state)"
      by (simp add: switch_state_def demo_state_def)
    then show ?thesis
      by (simp add: terminate_def kill_loop.simps probe_def Let_def emit_emit p
            first_wait_returns_world_def demo_world_def maxKillNumber_def)
  qed
  from t l 3 5 4 show ?thesis by (intro conjI)
qed

text \<open>
  C4. In every iteration of the loop a process is started only at a moment when the
  last probe of the process that was running said that it no longer exists. When the
  re-optimization selects a combination other than the active one and the iteration
  completes, the calls are: the selector's query, the kills, waits and probes of the old
  process, ending with a probe that finds it gone, then only calls on the store and the
  notifier, then the start of the new process.
\<close>

theorem new_process_only_after_dead_probe:
  "dead_then_start (proc s) False (since s (loop_step w config s))
   \<and> (\<forall>a s'. getBestSoftwareAlgo (db_now s) (minerID s) (UseEstimates config) = Inr a
           \<and> MSA_ID a \<noteq> MinerSoftwareAlgoID (thisMiner s)
           \<and> reoptimize w config s = Inr s'
        \<longrightarrow> (\<exists>pre mid path args pid.
               trace s' = trace s @ [Optimize] @ pre @ [PidExists (proc s) False] @ mid
                            @ [StartProcess path args (Some pid)]
               \<and> no_start pre \<and> list_all is_store mid \<and> proc s' = pid))"
proof (intro conjI allI impI)
  show "dead_then_start (proc s) False (since s (loop_step w config s))"
    by (simp add: loop_step_def reoptimize_dead_then_start tick_dead_then_start)
next
  fix a s'
  assume h: "getBestSoftwareAlgo (db_now s) (minerID s) (UseEstimates config) = Inr a
           \<and> MSA_ID a \<noteq> MinerSoftwareAlgoID (thisMiner s)
           \<and> reoptimize w config s = Inr s'"
  define s1 where "s1 = emit [Optimize] (s\<lparr>secondsSlept := 0\<rparr>)"
  have f: "db_now s1 = db_now s" "minerID s1 = minerID s" "thisMiner s1 = thisMiner s"
    by (simp_all add: s1_def)
  from h have "switch_algo w config a s1 = Inr s'"
    by (clarsimp simp: reoptimize_def s1_def[symmetric] f)
  from switch_algo_Inr[OF this]
  show "\<exists>pre mid path args pid.
               trace s' = trace s @ [Optimize] @ pre @ [PidExists (proc s) False] @ mid
                            @ [StartProcess path args (Some pid)]
               \<and> no_start pre \<and> list_all is_store mid \<and> proc s' = pid"
    by (auto simp: s1_def)
qed

theorem new_process_only_after_dead_probe_witness:
  "getBestSoftwareAlgo (db_now switch_state) (minerID switch_state) (UseEstimates demo_config)
     = Inr combo_A
   \<and> MSA_ID combo_A \<noteq> MinerSoftwareAlgoID (thisMiner switch_state)
   \<and> (\<exists>s' pre mid path args.
         reoptimize (demo_world dies_after_retry) demo_config switch_state = Inr s'
         \<and> trace s' = trace switch_state @ [Optimize] @ pre @ [PidExists 42 False] @ mid
                        @ [StartProcess path args (Some 14)]
         \<and> no_start pre \<and> list_all is_store mid)
   \<and> dead_then_start 42 False
         (since switch_state (loop_step (demo_world dies_after_retry) demo_config switch_state))"
proof -
  let ?w = "demo_world dies_after_retry"
  have best: "getBestSoftwareAlgo (db_now switch_state) (minerID switch_state)
                (UseEstimates demo_config) = Inr combo_A"
    by code_simp
  have neq: "MSA_ID combo_A \<noteq> MinerSoftwareAlgoID (thisMiner switch_state)"
    by code_simp
  have "case reoptimize ?w demo_config switch_state of Inl x \<Rightarrow> False | Inr s' \<Rightarrow> proc s' = 14"
    by code_simp
  then obtain s' where r: "reoptimize ?w demo_config switch_state = Inr s'" and p: "proc s' = 14"
    by (cases "reoptimize ?w demo_config switch_state") auto
  have pr: "proc switch_state = 42"
    by code_simp
  note inst = new_process_only_after_dead_probe [of switch_state ?w demo_config]
  from inst have d: "dead_then_start (proc switch_state) False
      (since switch_state (loop_step ?w demo_config switch_state))"
    by (rule conjunct1)
  from inst best neq r obtain pre mid path args pid where
    "trace s' = trace switch_state @ [Optimize] @ pre @ [PidExists (proc switch_state) False]
                  @ mid @ [StartProcess path args (Some pid)]"
    "no_start pre" "list_all is_store mid" "proc s' = pid"
    by blast
  with best neq r d show ?thesis
    unfolding pr p[symmetric] by blast
qed

text \<open>
  C5. In a state that a run has reached, when the iteration is a sleep tick and its
  probe finds the process gone, the same iteration kills and waits for the old handle
  and starts a process with \<open>filePath\<close> and \<open>params\<close>, which are the path and the
  argument list of the last process that was started. The selector is not run. Whether
  the start succeeds or ends the program, the stored tables and the device record held
  by the program, its active combination in particular, are as before; after a
  successful start \<open>filePath\<close> and \<open>params\<close> are as before too.
\<close>

theorem respawn_keeps_launch_spec:
  "startup w config db0 = Inr s0 \<and> iterate n w config s0 = Inr s
   \<and> \<not> (secondsSlept s > 0 \<and> (OptimizationCheckTime config = 0
                              \<or> secondsSlept s smod OptimizationCheckTime config = 0))
   \<and> \<not> pid_exists w (trace s @ [Sleep 30]) (proc s)
   \<longrightarrow> last_start (trace s) = Some (filePath s, params s)
     \<and> loop_step w config s
         = openProcess w (filePath s) (params s)
             (emit [Sleep 30, PidExists (proc s) False, Kill (proc s), Wait (proc s)]
                (s\<lparr>secondsSlept := secondsSlept s + 30\<rparr>))
     \<and> (\<forall>s'. loop_step w config s = Inr s' \<longrightarrow>
           trace s' = trace s @ [Sleep 30, PidExists (proc s) False, Kill (proc s), Wait (proc s),
                                 StartProcess (filePath s) (params s) (Some (proc s'))]
           \<and> db_now s' = db_now s \<and> thisMiner s' = thisMiner s
           \<and> params s' = params s \<and> filePath s' = filePath s)
     \<and> (\<forall>e s'. loop_step w config s = Inl (e, s') \<longrightarrow>
           e = StartFailed
           \<and> trace s' = trace s @ [Sleep 30, PidExists (proc s) False, Kill (proc s), Wait (proc s),
                                   StartProcess (filePath s) (params s) None]
           \<and> db_now s' = db_now s \<and> thisMiner s' = thisMiner s)"
proof (intro impI)
  assume h: "startup w config db0 = Inr s0 \<and> iterate n w config s0 = Inr s
   \<and> \<not> (secondsSlept s > 0 \<and> (OptimizationCheckTime config = 0
                              \<or> secondsSlept s smod OptimizationCheckTime config = 0))
   \<and> \<not> pid_exists w (trace s @ [Sleep 30]) (proc s)"
  then have "run_inv s" using startup_inv iterate_inv by blast
  then have 1: "last_start (trace s) = Some (filePath s, params s)"
    by (simp add: run_inv_def)
  from h have 2: "loop_step w config s
         = openProcess w (filePath s) (params s)
             (emit [Sleep 30, PidExists (proc s) False, Kill (proc s), Wait (proc s)]
                (s\<lparr>secondsSlept := secondsSlept s + 30\<rparr>))"
    by (auto simp: loop_step_def tick_eq)
  show "last_start (trace s) = Some (filePath s, params s)
     \<and> loop_step w config s
         = openProcess w (filePath s) (params s)
             (emit [Sleep 30, PidExists (proc s) False, Kill (proc s), Wait (proc s)]
                (s\<lparr>secondsSlept := secondsSlept s + 30\<rparr>))
     \<and> (\<forall>s'. loop_step w config s = Inr s' \<longrightarrow>
           trace s' = trace s @ [Sleep 30, PidExists (proc s) False, Kill (proc s), Wait (proc s),
                                 StartProcess (filePath s) (params s) (Some (proc s'))]
           \<and> db_now s' = db_now s \<and> thisMiner s' = thisMiner s
           \<and> params s' = params s \<and> filePath s' = filePath s)
     \<and> (\<forall>e s'. loop_step w config s = Inl (e, s') \<longrightarrow>
           e = StartFailed
           \<and> trace s' = trace s @ [Sleep 30, PidExists (proc s) False, Kill (proc s), Wait (proc s),
                                   StartProcess (filePath s) (params s) None]
           \<and> db_now s' = db_now s \<and> thisMiner s' = thisMiner s)"
    using 1 2 by (auto dest!: openProcess_cases)
qed

theorem respawn_keeps_launch_spec_witness:
  "\<exists>s0 s s'.
     startup (demo_world dies_after_two_probes) demo_config demo_db = Inr s0
     \<and> iterate 2 (demo_world dies_after_two_probes) demo_config s0 = Inr s
     \<and> secondsSlept s = 60
     \<and> pid_exists (demo_world dies_after_two_probes) (trace s @ [Sleep 30]) (proc s) = False
     \<and> loop_step (demo_world dies_after_two_probes) demo_config s = Inr s'
     \<and> last_start (trace s)
         = Some (''/bin/worker'',
                 [''worker'', ''--algo'', ''x17'', ''--pool'', ''stratum+tcp://p:3333'',
                  ''--wallet'', ''W'', ''--pass'', ''x''])
     \<and> trace s' = trace s @ [Sleep 30, PidExists (proc s) False, Kill (proc s), Wait (proc s),
            StartProcess ''/bin/worker''
              [''worker'', ''--algo'', ''x17'', ''--pool'', ''stratum+tcp://p:3333'',
               ''--wallet'', ''W'', ''--pass'', ''x''] (Some (proc s'))]
     \<and> db_now s' = db_now s \<and> thisMiner s' = thisMiner s"
proof -
  let ?w = "demo_world dies_after_two_probes"
  let ?args = "[''worker'', ''--algo'', ''x17'', ''--pool'', ''stratum+tcp://p:3333'',
                  ''--wallet'', ''W'', ''--pass'', ''x'']"
  have "case startup ?w demo_config demo_db of
          Inl x \<Rightarrow> False
        | Inr s0 \<Rightarrow>
            (case iterate 2 ?w demo_config s0 of
               Inl x \<Rightarrow> False
             | Inr s \<Rightarrow> secondsSlept s = 60
                 \<and> pid_exists ?w (trace s @ [Sleep 30]) (proc s) = False
                 \<and> filePath s = ''/bin/worker'' \<and> params s = ?args
                 \<and> (case loop_step ?w demo_config s of Inl x \<Rightarrow> False | Inr s' \<Rightarrow> True))"
    by code_simp
  then obtain s0 where r0: "startup ?w demo_config demo_db = Inr s0"
    and c0: "case iterate 2 ?w demo_config s0 of
               Inl x \<Rightarrow> False
             | Inr s \<Rightarrow> secondsSlept s = 60
                 \<and> pid_exists ?w (trace s @ [Sleep 30]) (proc s) = False
                 \<and> filePath s = ''/bin/worker'' \<and> params s = ?args
                 \<and> (case loop_step ?w demo_config s of Inl x \<Rightarrow> False | Inr s' \<Rightarrow> True)"
    by (cases "startup ?w demo_config demo_db") (simp_all only: sum.case)
  then obtain s where r1: "iterate 2 ?w demo_config s0 = Inr s"
    and c1: "secondsSlept s = 60
                 \<and> pid_exists ?w (trace s @ [Sleep 30]) (proc s) = False
                 \<and> filePath s = ''/bin/worker'' \<and> params s = ?args
                 \<and> (case loop_step ?w demo_config s of Inl x \<Rightarrow> False | Inr s' \<Rightarrow> True)"
    by (cases "iterate 2 ?w demo_config s0") (simp_all only: sum.case)
  from c1 have "case loop_step ?w demo_config s of Inl x \<Rightarrow> False | Inr s' \<Rightarrow> True"
    by (elim conjE)
  then obtain s' where r2: "loop_step ?w demo_config s = Inr s'"
    by (cases "loop_step ?w demo_config s") (simp_all only: sum.case)
  note r = r0 r1 conjunct1[OF c1] conjunct1[OF conjunct2[OF c1]]
    conjunct1[OF conjunct2[OF conjunct2[OF c1]]]
    conjunct1[OF conjunct2[OF conjunct2[OF conjunct2[OF c1]]]] r2
  have c: "\<not> (secondsSlept s > 0 \<and> (OptimizationCheckTime demo_config = 0
                 \<or> secondsSlept s smod OptimizationCheckTime demo_config = 0))"
    using r(3) by (simp add: demo_config_def smod_int_alt_def)
  have np: "\<not> pid_exists ?w (trace s @ [Sleep 30]) (proc s)"
    using r(4) by (simp only: simp_thms)
  have hyp: "startup ?w demo_config demo_db = Inr s0 \<and> iterate 2 ?w demo_config s0 = Inr s
   \<and> \<not> (secondsSlept s > 0 \<and> (OptimizationCheckTime demo_config = 0
                              \<or> secondsSlept s smod OptimizationCheckTime demo_config = 0))
   \<and> \<not> pid_exists ?w (trace s @ [Sleep 30]) (proc s)"
    by (intro conjI r0 r1 c np)
  note concl = mp[OF respawn_keeps_launch_spec[of ?w demo_config demo_db s0 2 s] hyp]
  from concl have a: "last_start (trace s) = Some (filePath s, params s)"
    by (rule conjunct1)
  from concl have "\<forall>s'. loop_step ?w demo_config s = Inr s' \<longrightarrow>
           trace s' = trace s @ [Sleep 30, PidExists (proc s) False, Kill (proc s), Wait (proc s),
                                 StartProcess (filePath s) (params s) (Some (proc s'))]
           \<and> db_now s' = db_now s \<and> thisMiner s' = thisMiner s
           \<and> params s' = params s \<and> filePath s' = filePath s"
    by (elim conjE)
  with r2 have b: "trace s' = trace s @ [Sleep 30, PidExists (proc s) False, Kill (proc s), Wait (proc s),
                                 StartProcess (filePath s) (params s) (Some (proc s'))]
           \<and> db_now s' = db_now s \<and> thisMiner s' = thisMiner s
           \<and> params s' = params s \<and> filePath s' = filePath s"
    by blast
  show ?thesis
    apply (rule exI[of _ s0], rule exI[of _ s], rule exI[of _ s'])
    apply (intro conjI)
            apply (rule r0)
           apply (rule r1)
          apply (rule r(3))
         apply (rule r(4))
        apply (rule r2)
       apply (simp only: a r(5) r(6))
      apply (simp only: b[THEN conjunct1] r(5) r(6))
     apply (simp only: b)
    apply (simp only: b)
    done
qed

text \<open>
  C6. With an optimization period of zero seconds the program starts and its first
  iteration, at a counter of zero, is a tick: it sleeps 30 seconds, probes the process
  and stores the heartbeat. At the second iteration the counter is 30, which is not zero
  and not a multiple of the period, so that the claim has the loop tick again. The
  remainder of the division by the period panics: the iteration neither sleeps nor
  probes nor records a heartbeat, the deferred calls kill the process and roll back, and
  the program ends.
\<close>

theorem zero_period_panics:
  "\<exists>s0 s1.
     startup (demo_world (\<lambda>h p. True)) zero_period_config demo_db = Inr s0
     \<and> secondsSlept s0 = 0
     \<and> loop_step (demo_world (\<lambda>h p. True)) zero_period_config s0 = Inr s1
     \<and> secondsSlept s1 = 30
     \<and> since s0 (Inr s1)
         = [Sleep 30, PidExists 8 True, Begin,
            Save (demo_miner\<lparr>MinerSoftwareAlgoID := 1, LastCheckIn := 10,
                              OfflineNoticeSent := False\<rparr>), Commit]
     \<and> miners (db_now s1)
         = [demo_miner\<lparr>MinerSoftwareAlgoID := 1, LastCheckIn := 10, OfflineNoticeSent := False\<rparr>]
     \<and> \<not> OptimizationCheckTime zero_period_config dvd secondsSlept s1
     \<and> loop_step (demo_world (\<lambda>h p. True)) zero_period_config s1
         = Inl (DivideByZero, emit [Kill 8, Rollback] s1)
     \<and> iterate 2 (demo_world (\<lambda>h p. True)) zero_period_config s0
         = Inl (DivideByZero, emit [Kill 8, Rollback] s1)"
proof -
  let ?w = "demo_world (\<lambda>h p. True)"
  let ?hb = "demo_miner\<lparr>MinerSoftwareAlgoID := 1, LastCheckIn := 10, OfflineNoticeSent := False\<rparr>"
  have "case startup ?w zero_period_config demo_db of
          Inl x \<Rightarrow> False
        | Inr s0 \<Rightarrow> secondsSlept s0 = 0 \<and>
            (case loop_step ?w zero_period_config s0 of
               Inl x \<Rightarrow> False
             | Inr s1 \<Rightarrow> secondsSlept s1 = 30 \<and> proc s1 = 8
                 \<and> since s0 (Inr s1) = [Sleep 30, PidExists 8 True, Begin, Save ?hb, Commit]
                 \<and> miners (db_now s1) = [?hb])"
    by code_simp
  then obtain s0 where r0: "startup ?w zero_period_config demo_db = Inr s0"
    and c0: "secondsSlept s0 = 0 \<and>
            (case loop_step ?w zero_period_config s0 of
               Inl x \<Rightarrow> False
             | Inr s1 \<Rightarrow> secondsSlept s1 = 30 \<and> proc s1 = 8
                 \<and> since s0 (Inr s1) = [Sleep 30, PidExists 8 True, Begin, Save ?hb, Commit]
                 \<and> miners (db_now s1) = [?hb])"
    by (cases "startup ?w zero_period_config demo_db") (simp_all only: sum.case)
  from c0 have z: "secondsSlept s0 = 0" by (rule conjunct1)
  from c0 have "case loop_step ?w zero_period_config s0 of
               Inl x \<Rightarrow> False
             | Inr s1 \<Rightarrow> secondsSlept s1 = 30 \<and> proc s1 = 8
                 \<and> since s0 (Inr s1) = [Sleep 30, PidExists 8 True, Begin, Save ?hb, Commit]
                 \<and> miners (db_now s1) = [?hb]"
    by (rule conjunct2)
  then obtain s1 where r1: "loop_step ?w zero_period_config s0 = Inr s1"
    and c1: "secondsSlept s1 = 30 \<and> proc s1 = 8
                 \<and> since s0 (Inr s1) = [Sleep 30, PidExists 8 True, Begin, Save ?hb, Commit]
                 \<and> miners (db_now s1) = [?hb]"
    by (cases "loop_step ?w zero_period_config s0") (simp_all only: sum.case)
  from c1 have f: "secondsSlept s1 = 30" "proc s1 = 8"
    "since s0 (Inr s1) = [Sleep 30, PidExists 8 True, Begin, Save ?hb, Commit]"
    "miners (db_now s1) = [?hb]"
    by blast+
  have zp: "OptimizationCheckTime zero_period_config = 0"
    by (simp add: zero_period_config_def)
  from loop_step_zero_period[OF zp, of s1 ?w] f(1,2)
  have l2: "loop_step ?w zero_period_config s1 = Inl (DivideByZero, emit [Kill 8, Rollback] s1)"
    by simp
  have i2: "iterate 2 ?w zero_period_config s0 = Inl (DivideByZero, emit [Kill 8, Rollback] s1)"
    using r1 l2 by (simp add: numeral_2_eq_2)
  have nd: "\<not> OptimizationCheckTime zero_period_config dvd secondsSlept s1"
    by (simp add: zp f(1))
  show ?thesis
    apply (rule exI[of _ s0], rule exI[of _ s1])
    apply (intro conjI)
            apply (rule r0)
           apply (rule z)
          apply (rule r1)
         apply (rule f(1))
        apply (rule f(3))
       apply (rule f(4))
      apply (rule nd)
     apply (rule l2)
    apply (rule i2)
    done
qed



text \<open>
  C8 (amended). When the builder returns after its commit, the argument list is, in this
  order: the name of the software, its algorithm flag, the \<open>Name\<close> field of the selected
  combination, the pool flag, the pool endpoint, the wallet flag, the wallet, the
  password flag, the pool password, then the pieces of the software's extra arguments
  and then the pieces of the combination's extra arguments, each group only when its
  string is not empty. The pieces are those of \<open>strings.Split\<close> with a single space:
  joining them with single spaces gives the string back, no piece contains a space, and
  there is one piece more than there are spaces.
\<close>

theorem argument_list_order:
  "(changeAlgoGetParams w config a s = Inr ((ps, fp), s') \<and> last (trace s') = Commit \<longrightarrow>
      ps = [MinerSoftware_Name (find_software (db_now s) a),
            AlgoParam (find_software (db_now s) a), MSA_Name a,
            PoolParam (find_software (db_now s) a),
            GeneratePoolURL w (db_now s') (MSA_AlgorithmID a),
            WalletParam (find_software (db_now s) a), Wallet config,
            PasswordParam (find_software (db_now s) a), PoolPassword config]
           @ (if OtherParams (find_software (db_now s) a) = [] then []
              else Split (OtherParams (find_software (db_now s) a)) CHR '' '')
           @ (if ExtraParams a = [] then [] else Split (ExtraParams a) CHR '' ''))
   \<and> Join (Split x c) c = x
   \<and> (\<forall>p \<in> set (Split x c). c \<notin> set p)
   \<and> length (Split x c) = Suc (count_list x c)"
proof (intro conjI impI)
  assume h: "changeAlgoGetParams w config a s = Inr ((ps, fp), s') \<and> last (trace s') = Commit"
  from changeAlgoGetParams_Inr[of w config a s ps fp s'] h
  have "ps = build_params config (find_software (db_now s) a) a
                  (GeneratePoolURL w (db_now s') (MSA_AlgorithmID a))"
    by (auto simp: emit_def)
  then show "ps = [MinerSoftware_Name (find_software (db_now s) a),
            AlgoParam (find_software (db_now s) a), MSA_Name a,
            PoolParam (find_software (db_now s) a),
            GeneratePoolURL w (db_now s') (MSA_AlgorithmID a),
            WalletParam (find_software (db_now s) a), Wallet config,
            PasswordParam (find_software (db_now s) a), PoolPassword config]
           @ (if OtherParams (find_software (db_now s) a) = [] then []
              else Split (OtherParams (find_software (db_now s) a)) CHR '' '')
           @ (if ExtraParams a = [] then [] else Split (ExtraParams a) CHR '' '')"
    by (simp add: build_params_def)
qed (simp_all add: Join_Split Split_pieces length_Split)

theorem argument_list_order_witness:
  "\<exists>ps fp s'.
     changeAlgoGetParams (demo_world (\<lambda>h p. True)) demo_config renamed_combo tabbed_state
       = Inr ((ps, fp), s')
     \<and> last (trace s') = Commit
     \<and> ps = [''worker'', ''--algo'', ''x17a'', ''--pool'', ''stratum+tcp://p:3333'',
             ''--wallet'', ''W'', ''--pass'', ''x'',
             ''-t'' @ [CHR 0x09] @ ''4'', '''', ''--fast'', ''-i'', ''20'']
     \<and> Join (Split ''-i 20'' CHR '' '') CHR '' '' = ''-i 20''"
proof -
  let ?w = "demo_world (\<lambda>h p. True)"
  have "case changeAlgoGetParams ?w demo_config renamed_combo tabbed_state of
          Inl x \<Rightarrow> False | Inr ((ps, fp), s') \<Rightarrow> last (trace s') = Commit"
    by code_simp
  then obtain ps fp s' where
    r: "changeAlgoGetParams ?w demo_config renamed_combo tabbed_state = Inr ((ps, fp), s')"
    and c: "last (trace s') = Commit"
    by (cases "changeAlgoGetParams ?w demo_config renamed_combo tabbed_state") auto
  have f: "find_software (db_now tabbed_state) renamed_combo = tabbed_software"
    by code_simp
  note inst = argument_list_order
    [where w = ?w and config = demo_config and a = renamed_combo and s = tabbed_state
       and ps = ps and fp = fp and s' = s' and x = "''-i 20''" and c = "CHR '' ''"]
  from inst r c have
    "ps = [MinerSoftware_Name (find_software (db_now tabbed_state) renamed_combo),
            AlgoParam (find_software (db_now tabbed_state) renamed_combo), MSA_Name renamed_combo,
            PoolParam (find_software (db_now tabbed_state) renamed_combo),
            GeneratePoolURL ?w (db_now s') (MSA_AlgorithmID renamed_combo),
            WalletParam (find_software (db_now tabbed_state) renamed_combo), Wallet demo_config,
            PasswordParam (find_software (db_now tabbed_state) renamed_combo),
            PoolPassword demo_config]
           @ (if OtherParams (find_software (db_now tabbed_state) renamed_combo) = [] then []
              else Split (OtherParams (find_software (db_now tabbed_state) renamed_combo)) CHR '' '')
           @ (if ExtraParams renamed_combo = [] then []
              else Split (ExtraParams renamed_combo) CHR '' '')"
    by blast
  then have "ps = [''worker'', ''--algo'', ''x17a'', ''--pool'', ''stratum+tcp://p:3333'',
             ''--wallet'', ''W'', ''--pass'', ''x'',
             ''-t'' @ [CHR 0x09] @ ''4'', '''', ''--fast'', ''-i'', ''20'']"
    unfolding f
    by (simp add: tabbed_software_def demo_software_def renamed_combo_def combo_A_def
          demo_config_def demo_world_def)
  moreover from inst have "Join (Split ''-i 20'' CHR '' '') CHR '' '' = ''-i 20''" by blast
  ultimately show ?thesis using r c by blast
qed

text \<open>As stated, C8 fails: a tab does not separate arguments, two adjacent spaces give
  an empty argument, and the third entry is the combination's own name, not the name of
  the algorithm; and for a combination selected while the device has no e-mail
  preference, the builder returns an empty list.\<close>

theorem argument_list_counterexample:
  "find_software (db_now tabbed_state) renamed_combo = tabbed_software
   \<and> find_algorithm (db_now tabbed_state) renamed_combo
       = \<lparr>Algorithm_ID = 1, Algorithm_Name = ''x17''\<rparr>
   \<and> (case changeAlgoGetParams (demo_world (\<lambda>h p. True)) demo_config renamed_combo tabbed_state of
         Inl x \<Rightarrow> False
       | Inr ((ps, fp), s') \<Rightarrow>
           ps = [''worker'', ''--algo'', ''x17a'', ''--pool'', ''stratum+tcp://p:3333'',
                 ''--wallet'', ''W'', ''--pass'', ''x'',
                 ''-t'' @ [CHR 0x09] @ ''4'', '''', ''--fast'', ''-i'', ''20'']
           \<and> ps \<noteq> spec_params demo_config tabbed_software
                     \<lparr>Algorithm_ID = 1, Algorithm_Name = ''x17''\<rparr> renamed_combo
                     ''stratum+tcp://p:3333'')
   \<and> spec_params demo_config tabbed_software \<lparr>Algorithm_ID = 1, Algorithm_Name = ''x17''\<rparr>
         renamed_combo ''stratum+tcp://p:3333''
       = [''worker'', ''--algo'', ''x17'', ''--pool'', ''stratum+tcp://p:3333'',
          ''--wallet'', ''W'', ''--pass'', ''x'', ''-t'', ''4'', ''--fast'', ''-i'', ''20'']
   \<and> (case changeAlgoGetParams (demo_world (\<lambda>h p. True)) demo_config combo_A nil_pref_state of
         Inl x \<Rightarrow> False
       | Inr ((ps, fp), s') \<Rightarrow> ps = [] \<and> fp = [])"
  by code_simp

text \<open>
  C9. When an e-mail server is configured and the device record, as re-read in the
  builder, has no e-mail preference (a nil pointer), the builder does not skip the
  notification and complete the switch: the dereference panics after the three lookups
  succeeded, the deferred function recovers and rolls the transaction back, and the
  builder returns the zero values, an empty argument list and an empty path. Nothing
  was saved, no notification was sent, and the active combination of the device is not
  changed. (With a preference that is present and false, the builder does skip the
  notification and completes the switch: it saves the switched record and commits.)
\<close>

theorem nil_email_preference_panics:
  "(find_software (db_now s) a \<noteq> zero_MinerSoftware
    \<and> find_algorithm (db_now s) a \<noteq> zero_Algorithm
    \<and> find_details (db_now s) (thisMiner s) (find_software (db_now s) a) \<noteq> zero_MinerMinerSoftware
    \<and> length (EmailServer config) > 0
    \<and> SendEmail (reread_miner (db_now s) (thisMiner s)) = None
    \<longrightarrow> changeAlgoGetParams w config a s
         = Inr (([], []),
                emit [Begin, Rollback] (s\<lparr>thisMiner := reread_miner (db_now s) (thisMiner s)\<rparr>)))
   \<and> (find_software (db_now s) a \<noteq> zero_MinerSoftware
    \<and> find_algorithm (db_now s) a \<noteq> zero_Algorithm
    \<and> find_details (db_now s) (thisMiner s) (find_software (db_now s) a) \<noteq> zero_MinerMinerSoftware
    \<and> length (EmailServer config) > 0
    \<and> SendEmail (reread_miner (db_now s) (thisMiner s)) = Some False
    \<and> commit_ok w (trace s @ [Begin, Save (saved_record w ((reread_miner (db_now s) (thisMiner s))
                       \<lparr>MinerSoftwareAlgoID := MSA_ID a, OfflineNoticeSent := False\<rparr>)
                                             (miners (db_now s)))])
    \<longrightarrow> (\<exists>ps s'. changeAlgoGetParams w config a s
                   = Inr ((ps, FilePath (find_details (db_now s) (thisMiner s)
                                           (find_software (db_now s) a))), s')
            \<and> trace s' = trace s @ [Begin, Save (thisMiner s'), Commit]
            \<and> MinerSoftwareAlgoID (thisMiner s') = MSA_ID a))"
proof (intro conjI)
  show "find_software (db_now s) a \<noteq> zero_MinerSoftware
    \<and> find_algorithm (db_now s) a \<noteq> zero_Algorithm
    \<and> find_details (db_now s) (thisMiner s) (find_software (db_now s) a) \<noteq> zero_MinerMinerSoftware
    \<and> length (EmailServer config) > 0
    \<and> SendEmail (reread_miner (db_now s) (thisMiner s)) = None
    \<longrightarrow> changeAlgoGetParams w config a s
         = Inr (([], []),
                emit [Begin, Rollback] (s\<lparr>thisMiner := reread_miner (db_now s) (thisMiner s)\<rparr>))"
    by (auto simp: changeAlgoGetParams_def Let_def emit_def)
qed (auto simp: changeAlgoGetParams_def Let_def emit_def saved_record_def)

theorem nil_email_preference_panics_witness:
  "find_software (db_now nil_pref_state) combo_A = demo_software
   \<and> find_algorithm (db_now nil_pref_state) combo_A = \<lparr>Algorithm_ID = 1, Algorithm_Name = ''x17''\<rparr>
   \<and> FilePath (find_details (db_now nil_pref_state) (thisMiner nil_pref_state) demo_software)
       = ''/bin/worker''
   \<and> length (EmailServer demo_config) > 0
   \<and> thisMiner nil_pref_state = demo_miner\<lparr>MinerSoftwareAlgoID := 2\<rparr>
   \<and> reread_miner (db_now nil_pref_state) (thisMiner nil_pref_state)
       = demo_miner\<lparr>SendEmail := None\<rparr>
   \<and> changeAlgoGetParams (demo_world (\<lambda>h p. True)) demo_config combo_A nil_pref_state
        = Inr (([], []),
               emit [Begin, Rollback] (nil_pref_state\<lparr>thisMiner := demo_miner\<lparr>SendEmail := None\<rparr>\<rparr>))"
proof -
  have a: "find_software (db_now nil_pref_state) combo_A = demo_software"
    "find_algorithm (db_now nil_pref_state) combo_A = \<lparr>Algorithm_ID = 1, Algorithm_Name = ''x17''\<rparr>"
    "FilePath (find_details (db_now nil_pref_state) (thisMiner nil_pref_state) demo_software)
       = ''/bin/worker''"
    "length (EmailServer demo_config) > 0"
    "thisMiner nil_pref_state = demo_miner\<lparr>MinerSoftwareAlgoID := 2\<rparr>"
    "reread_miner (db_now nil_pref_state) (thisMiner nil_pref_state)
       = demo_miner\<lparr>SendEmail := None\<rparr>"
    by code_simp+
  have b: "demo_software \<noteq> zero_MinerSoftware"
    "\<lparr>Algorithm_ID = 1, Algorithm_Name = ''x17''\<rparr> \<noteq> zero_Algorithm"
    "find_details (db_now nil_pref_state) (thisMiner nil_pref_state) demo_software
       \<noteq> zero_MinerMinerSoftware"
    "SendEmail (demo_miner\<lparr>SendEmail := None\<rparr>) = None"
    by code_simp+
  from conjunct1 [OF nil_email_preference_panics
         [where s = nil_pref_state and a = combo_A and config = demo_config
            and w = "demo_world (\<lambda>h p. True)"]] a b
  have "changeAlgoGetParams (demo_world (\<lambda>h p. True)) demo_config combo_A nil_pref_state
        = Inr (([], []),
               emit [Begin, Rollback] (nil_pref_state\<lparr>thisMiner := demo_miner\<lparr>SendEmail := None\<rparr>\<rparr>))"
    by simp
  with a show ?thesis by simp
qed

text \<open>
  C10. Each "not found" check compares the fetched record with the zero value of its
  type: the program ends with the miner-not-found error exactly when the device lookup
  yields the zero record, with the bad-link error exactly when the software or the
  algorithm lookup yields the zero record, with the no-file-path error exactly when
  those two do not and the file path lookup does, and the selector fails exactly when
  the record it fetched is the zero record. A lookup whose first matching row exists
  and is an all-zero row yields the zero record, so such a row is treated as not found.
\<close>

theorem not_found_is_zero_value:
  "((\<exists>s'. startup w config db0 = Inl (MinerNotFound, s')) \<longleftrightarrow>
      find_miner (fst (VerifyMiner w db0 (MinerName config)))
                 (snd (VerifyMiner w db0 (MinerName config))) = zero_Miner)
   \<and> ((\<exists>s'. changeAlgoGetParams w config a s = Inl (BadSoftwareOrAlgoLink, s')) \<longleftrightarrow>
        (find_software (db_now s) a = zero_MinerSoftware
         \<or> find_algorithm (db_now s) a = zero_Algorithm))
   \<and> ((\<exists>s'. changeAlgoGetParams w config a s = Inl (NoFilePath, s')) \<longleftrightarrow>
        (find_software (db_now s) a \<noteq> zero_MinerSoftware
         \<and> find_algorithm (db_now s) a \<noteq> zero_Algorithm
         \<and> find_details (db_now s) (thisMiner s) (find_software (db_now s) a)
             = zero_MinerMinerSoftware))
   \<and> (getBestSoftwareAlgo db mid u = Inl NoViableOptimization \<longleftrightarrow>
        bestMinerSoftwareAlgo db mid u = zero_MinerSoftwareAlgos)
   \<and> (filter (\<lambda>r. Miner_ID r = mid) (miners db) = zero_Miner # ms \<longrightarrow>
        find_miner db mid = zero_Miner)
   \<and> (filter (\<lambda>r. MinerSoftware_ID r = MSA_MinerSoftwareID a) (miner_softwares db)
         = zero_MinerSoftware # sws \<longrightarrow> find_software db a = zero_MinerSoftware)
   \<and> (filter (\<lambda>r. Algorithm_ID r = MSA_AlgorithmID a) (algorithms db)
         = zero_Algorithm # als \<longrightarrow> find_algorithm db a = zero_Algorithm)
   \<and> (filter (\<lambda>r. MMS_MinerID r = Miner_ID mi \<and> MMS_MinerSoftwareID r = MinerSoftware_ID sw)
          (miner_miner_softwares db) = zero_MinerMinerSoftware # ds \<longrightarrow>
        find_details db mi sw = zero_MinerMinerSoftware)
   \<and> (\<not> query_fails (joined db mid)
        \<and> map row_algo (order_desc_limit1 (orderLogic u) (joined db mid))
            = [zero_MinerSoftwareAlgos] \<longrightarrow>
        bestMinerSoftwareAlgo db mid u = zero_MinerSoftwareAlgos)"
proof (intro conjI)
  show "(\<exists>s'. startup w config db0 = Inl (MinerNotFound, s')) \<longleftrightarrow>
      find_miner (fst (VerifyMiner w db0 (MinerName config)))
                 (snd (VerifyMiner w db0 (MinerName config))) = zero_Miner"
    by (rule startup_not_found)
  show "(\<exists>s'. changeAlgoGetParams w config a s = Inl (BadSoftwareOrAlgoLink, s')) \<longleftrightarrow>
        (find_software (db_now s) a = zero_MinerSoftware
         \<or> find_algorithm (db_now s) a = zero_Algorithm)"
    using changeAlgoGetParams_bad_link[of s a w config]
    by (auto dest: changeAlgoGetParams_Inl)
  show "(\<exists>s'. changeAlgoGetParams w config a s = Inl (NoFilePath, s')) \<longleftrightarrow>
        (find_software (db_now s) a \<noteq> zero_MinerSoftware
         \<and> find_algorithm (db_now s) a \<noteq> zero_Algorithm
         \<and> find_details (db_now s) (thisMiner s) (find_software (db_now s) a)
             = zero_MinerMinerSoftware)"
    using changeAlgoGetParams_no_path[of s a w config]
    by (auto dest: changeAlgoGetParams_Inl)
  show "getBestSoftwareAlgo db mid u = Inl NoViableOptimization \<longleftrightarrow>
        bestMinerSoftwareAlgo db mid u = zero_MinerSoftwareAlgos"
    by (auto simp: getBestSoftwareAlgo_def Let_def)
qed (simp_all add: find_miner_def find_software_def find_algorithm_def find_details_def
       Find_def bestMinerSoftwareAlgo_def Let_def)

theorem not_found_is_zero_value_witness:
  "miners zero_catalog_db = [zero_Miner]
   \<and> (\<exists>s'. startup zero_catalog_world demo_config zero_catalog_db = Inl (MinerNotFound, s'))
   \<and> miner_softwares zero_catalog_db = [zero_MinerSoftware]
   \<and> (\<exists>s'. changeAlgoGetParams zero_catalog_world demo_config zero_MinerSoftwareAlgos
              zero_catalog_state = Inl (BadSoftwareOrAlgoLink, s'))
   \<and> miner_miner_softwares (db_now zero_path_state) = [zero_MinerMinerSoftware]
   \<and> (\<exists>s'. changeAlgoGetParams zero_catalog_world demo_config zero_MinerSoftwareAlgos
              zero_path_state = Inl (NoFilePath, s'))
   \<and> map row_algo (joined zero_catalog_db 0) = [zero_MinerSoftwareAlgos]
   \<and> getBestSoftwareAlgo zero_catalog_db 0 1 = Inl NoViableOptimization"
proof -
  note inst = not_found_is_zero_value
    [where w = zero_catalog_world and config = demo_config and ?db0.0 = zero_catalog_db
       and a = zero_MinerSoftwareAlgos and s = zero_catalog_state and db = zero_catalog_db
       and mid = 0 and u = 1 and ms = "[]" and sws = "[]" and als = "[]" and ds = "[]"
       and mi = zero_Miner and sw = zero_MinerSoftware]
  note inst2 = not_found_is_zero_value
    [where w = zero_catalog_world and config = demo_config
       and a = zero_MinerSoftwareAlgos and s = zero_path_state]
  have v: "VerifyMiner zero_catalog_world zero_catalog_db (MinerName demo_config)
             = (zero_catalog_db, 0)"
    by (simp add: zero_catalog_world_def demo_world_def)
  have f: "filter (\<lambda>r. Miner_ID r = 0) (miners zero_catalog_db) = [zero_Miner]"
    "filter (\<lambda>r. MinerSoftware_ID r = MSA_MinerSoftwareID zero_MinerSoftwareAlgos)
       (miner_softwares zero_catalog_db) = [zero_MinerSoftware]"
    "db_now zero_catalog_state = zero_catalog_db"
    "miners zero_catalog_db = [zero_Miner]"
    "miner_softwares zero_catalog_db = [zero_MinerSoftware]"
    "miner_miner_softwares (db_now zero_path_state) = [zero_MinerMinerSoftware]"
    by code_simp+
  from inst f(1) have "find_miner zero_catalog_db 0 = zero_Miner" by blast
  with inst v have 1: "\<exists>s'. startup zero_catalog_world demo_config zero_catalog_db
                        = Inl (MinerNotFound, s')" by simp
  from inst f(2) have "find_software zero_catalog_db zero_MinerSoftwareAlgos = zero_MinerSoftware"
    by blast
  with inst f(3) have 2: "\<exists>s'. changeAlgoGetParams zero_catalog_world demo_config
      zero_MinerSoftwareAlgos zero_catalog_state = Inl (BadSoftwareOrAlgoLink, s')" by simp
  have p: "find_software (db_now zero_path_state) zero_MinerSoftwareAlgos \<noteq> zero_MinerSoftware"
    "find_algorithm (db_now zero_path_state) zero_MinerSoftwareAlgos \<noteq> zero_Algorithm"
    "find_details (db_now zero_path_state) (thisMiner zero_path_state)
       (find_software (db_now zero_path_state) zero_MinerSoftwareAlgos) = zero_MinerMinerSoftware"
    by code_simp+
  with inst2 have 3: "\<exists>s'. changeAlgoGetParams zero_catalog_world demo_config
      zero_MinerSoftwareAlgos zero_path_state = Inl (NoFilePath, s')" by blast
  have q: "\<not> query_fails (joined zero_catalog_db 0)"
    "map row_algo (order_desc_limit1 (orderLogic 1) (joined zero_catalog_db 0))
            = [zero_MinerSoftwareAlgos]"
    "map row_algo (joined zero_catalog_db 0) = [zero_MinerSoftwareAlgos]"
    by code_simp+
  with inst have "bestMinerSoftwareAlgo zero_catalog_db 0 1 = zero_MinerSoftwareAlgos" by blast
  with inst have 4: "getBestSoftwareAlgo zero_catalog_db 0 1 = Inl NoViableOptimization" by blast
  from 1 2 3 4 f q show ?thesis by blast
qed

end
